theory Spec2Isabelle
  imports Complex_Main "HOL-Library.Multiset" "HOL-Library.Code_Target_Nat"
begin

section \<open>Secret generator (src/utils/helpers.js)\<close>

text \<open>
  \<^verbatim>\<open>Math.random()\<close> is the only source of nondeterminism in the helpers. The model
  makes it an explicit input: \<open>rnd k\<close> is the value returned by the \<open>k\<close>-th call. Its
  contract (a number in the half-open interval from 0 to 1) is the predicate
  \<open>math_random\<close>; the products with the alphabet lengths are taken exactly.
\<close>

type_synonym rng = "nat \<Rightarrow> real"

definition math_random :: "rng \<Rightarrow> bool" where
  "math_random rnd = (\<forall>k. 0 \<le> rnd k \<and> rnd k < 1)"

definition uppercase :: string where
  "uppercase = ''ABCDEFGHIJKLMNOPQRSTUVWXYZ''"

definition lowercase :: string where
  "lowercase = ''abcdefghijklmnopqrstuvwxyz''"

definition numbers :: string where
  "numbers = ''0123456789''"

definition symbols :: string where
  "symbols = ''@#$!''"

definition all_chars :: string where
  "all_chars = uppercase @ lowercase @ numbers @ symbols"

text \<open>
  \<^verbatim>\<open>password += s[i]\<close>: indexing a JavaScript string out of range yields
  \<^verbatim>\<open>undefined\<close>, and appending that to a string appends the nine characters of
  its name. Nothing is raised.
\<close>

definition js_char_at :: "string \<Rightarrow> int \<Rightarrow> string" where
  "js_char_at s i = (if 0 \<le> i \<and> i < int (length s) then [s ! nat i] else ''undefined'')"

text \<open>\<^verbatim>\<open>s[Math.floor(Math.random() * s.length)]\<close> for the draw \<open>r\<close>.\<close>

definition pick :: "string \<Rightarrow> real \<Rightarrow> string" where
  "pick s r = js_char_at s \<lfloor>r * real (length s)\<rfloor>"

text \<open>
  The fill loop \<^verbatim>\<open>for (let i = 4; i < length; i++)\<close>. The counter \<open>k\<close> is the number
  of draws consumed so far; it is returned with the string.
\<close>

function fill_loop :: "rng \<Rightarrow> int \<Rightarrow> nat \<Rightarrow> int \<Rightarrow> string \<Rightarrow> nat \<times> string" where
  "fill_loop rnd len k i password =
     (if i < len
      then fill_loop rnd len (Suc k) (i + 1) (password @ pick all_chars (rnd k))
      else (k, password))"
  by pat_completeness auto
termination
  by (relation "measure (\<lambda>(rnd, len, k, i, password). nat (len - i))") auto

text \<open>
  \<^verbatim>\<open>generatePassword(length = 8)\<close>. The argument is \<open>None\<close> when the caller omits
  it. The last line sorts the characters with the comparator
  \<^verbatim>\<open>() => Math.random() - 0.5\<close>; the order an engine produces for such an
  inconsistent comparator is implementation-defined, so the engine's
  \<^verbatim>\<open>Array.prototype.sort\<close> under that comparator is the parameter \<open>array_sort\<close>,
  which receives the draws that are left.
\<close>

definition generatePassword :: "(rng \<Rightarrow> string \<Rightarrow> string) \<Rightarrow> rng \<Rightarrow> int option \<Rightarrow> string" where
  "generatePassword array_sort rnd len_arg =
     (let len = (case len_arg of None \<Rightarrow> 8 | Some n \<Rightarrow> n);
          password = '''';
          password = password @ pick uppercase (rnd 0);
          password = password @ pick lowercase (rnd 1);
          password = password @ pick numbers (rnd 2);
          password = password @ pick symbols (rnd 3);
          (k, password) = fill_loop rnd len 4 4 password
      in array_sort (\<lambda>j. rnd (k + j)) password)"

text \<open>What every engine's sort guarantees: the result is a rearrangement of the input.\<close>

definition permutes_input :: "(rng \<Rightarrow> string \<Rightarrow> string) \<Rightarrow> bool" where
  "permutes_input array_sort = (\<forall>rnd xs. mset (array_sort rnd xs) = mset xs)"

text \<open>
  One admissible engine: insertion sort, each comparison consuming one draw. A negative
  comparator result puts the new element first.
\<close>

fun insert_random :: "rng \<Rightarrow> nat \<Rightarrow> char \<Rightarrow> string \<Rightarrow> string" where
  "insert_random rnd k x [] = [x]"
| "insert_random rnd k x (y # ys) =
     (if rnd k - 0.5 < 0 then x # y # ys else y # insert_random rnd (Suc k) x ys)"

fun insertion_sort_from :: "rng \<Rightarrow> nat \<Rightarrow> string \<Rightarrow> string" where
  "insertion_sort_from rnd k [] = []"
| "insertion_sort_from rnd k (x # xs) =
     insert_random rnd k x (insertion_sort_from rnd (k + length xs) xs)"

definition insertion_sort :: "rng \<Rightarrow> string \<Rightarrow> string" where
  "insertion_sort rnd xs = insertion_sort_from rnd 0 xs"

text \<open>
  \<^verbatim>\<open>generateOTP\<close>: \<^verbatim>\<open>Math.floor(100000 + Math.random() * 900000).toString()\<close>
  for the draw \<open>r\<close>. \<open>js_toString\<close> renders an integer in decimal, as
  \<^verbatim>\<open>Number.prototype.toString\<close> does for integers of this size.
\<close>

function decimal :: "nat \<Rightarrow> string" where
  "decimal n = (if n < 10 then [numbers ! n] else decimal (n div 10) @ [numbers ! (n mod 10)])"
  by pat_completeness auto
termination
  by (relation "measure (\<lambda>n. n)") auto

definition js_toString :: "int \<Rightarrow> string" where
  "js_toString n = (if n < 0 then CHR ''-'' # decimal (nat (- n)) else decimal (nat n))"

definition generateOTP :: "real \<Rightarrow> string" where
  "generateOTP r = js_toString \<lfloor>100000 + r * 900000\<rfloor>"

section \<open>Credential hasher (src/utils/helpers.js)\<close>

text \<open>
  The bcrypt library is not part of the repository; its two entry points are a parameter.
  \<open>bcrypt_hash data rounds salt\<close> is \<^verbatim>\<open>bcrypt.hash(data, rounds)\<close> when the
  library draws \<open>salt\<close>, and \<open>bcrypt_compare data digest\<close> is
  \<^verbatim>\<open>bcrypt.compare(data, digest)\<close>. Both are total on strings.
\<close>

record bcrypt =
  bcrypt_hash :: "string \<Rightarrow> nat \<Rightarrow> nat \<Rightarrow> string"
  bcrypt_compare :: "string \<Rightarrow> string \<Rightarrow> bool"

definition SALT_ROUNDS :: nat where
  "SALT_ROUNDS = 10"

definition hashPassword :: "bcrypt \<Rightarrow> nat \<Rightarrow> string \<Rightarrow> string" where
  "hashPassword B salt password = bcrypt_hash B password SALT_ROUNDS salt"

definition comparePassword :: "bcrypt \<Rightarrow> string \<Rightarrow> string \<Rightarrow> bool" where
  "comparePassword B password hash = bcrypt_compare B password hash"

text \<open>The library's contract used below: a digest verifies the secret it was made from.\<close>

definition bcrypt_verifies :: "bcrypt \<Rightarrow> bool" where
  "bcrypt_verifies B =
     (\<forall>data rounds salt. bcrypt_compare B data (bcrypt_hash B data rounds salt))"

text \<open>A small instance of the parameter, for evaluating the handlers on concrete inputs.\<close>

definition toy_bcrypt :: bcrypt where
  "toy_bcrypt =
     \<lparr>bcrypt_hash = (\<lambda>data rounds salt. (if even salt then CHR ''a'' else CHR ''b'') # data),
      bcrypt_compare = (\<lambda>data digest. digest \<noteq> [] \<and> tl digest = data)\<rparr>"

section \<open>Data store, sessions, requests and responses\<close>

text \<open>
  A row of \<^verbatim>\<open>admins\<close>, \<^verbatim>\<open>teachers\<close> or \<^verbatim>\<open>students\<close>. \<open>principal_id\<close> is
  the column \<^verbatim>\<open>id\<close>; \<open>login_id\<close> is the column the role logs in with
  (\<^verbatim>\<open>username\<close>, \<^verbatim>\<open>teacher_id\<close>, \<^verbatim>\<open>student_id\<close>). Identifiers are opaque and
  never falsy. \<open>None\<close> is a null column. The schema is not part of the sources: the
  three tables are taken to have the two columns the handlers write,
  \<^verbatim>\<open>password_hash\<close> and \<^verbatim>\<open>must_change_password\<close>.
\<close>

record principal =
  principal_id :: nat
  login_id :: string
  password_hash :: string
  full_name :: string
  email :: string
  department_id :: "nat option"
  must_change_password :: "bool option"

text \<open>A row of \<^verbatim>\<open>otp_tokens\<close>; times are milliseconds since the epoch.\<close>

record otp_token =
  token_id :: nat
  user_type :: string
  user_id :: nat
  otp_code_hash :: string
  expires_at :: nat
  used :: bool
  created_at :: nat

record activity_log =
  log_user_type :: string
  log_user_id :: nat
  log_action :: string
  log_details :: "(string \<times> string) list"

text \<open>
  The world outside a handler: the five tables it touches and the mail the notifier has
  delivered (recipient, code, display name). The store is modelled as reliable: the
  Supabase client reports a failed query in its result rather than by raising, and the
  handlers never read that part of the result.
\<close>

record world =
  admins :: "principal list"
  teachers :: "principal list"
  students :: "principal list"
  otp_tokens :: "otp_token list"
  activity_logs :: "activity_log list"
  outbox :: "(string \<times> string \<times> string) list"

text \<open>\<^verbatim>\<open>req.session.user\<close>; the session holds \<open>None\<close> when nobody is logged in.\<close>

record session_user =
  su_id :: nat
  su_role :: string
  su_username :: string
  su_fullName :: string
  su_email :: string
  su_departmentId :: "nat option"
  su_mustChangePassword :: bool

text \<open>
  \<^verbatim>\<open>req.body\<close>: every field a handler reads, \<open>None\<close> when the body does not have
  it. Fields are JSON strings.
\<close>

record req_body =
  body_role :: "string option"
  body_username :: "string option"
  body_password :: "string option"
  body_currentPassword :: "string option"
  body_newPassword :: "string option"
  body_identifier :: "string option"
  body_otp :: "string option"

record request =
  req_body :: req_body
  req_ip :: string

text \<open>JavaScript truthiness of a field: present and not the empty string.\<close>

definition truthy :: "string option \<Rightarrow> bool" where
  "truthy v = (case v of None \<Rightarrow> False | Some s \<Rightarrow> s \<noteq> [])"

definition value_of :: "string option \<Rightarrow> string" where
  "value_of v = (case v of None \<Rightarrow> [] | Some s \<Rightarrow> s)"

text \<open>
  A response: the HTTP status and the JSON body. \<open>Error e\<close> is \<^verbatim>\<open>{error: e}\<close>,
  \<open>Message m\<close> is \<^verbatim>\<open>{success: true, message: m}\<close> and \<open>User u\<close> is
  \<^verbatim>\<open>{success: true, user: u}\<close>.
\<close>

datatype payload = Error string | Message string | User session_user

record response =
  status :: nat
  body :: payload

definition json :: "nat \<Rightarrow> payload \<Rightarrow> response" where
  "json code b = \<lparr>status = code, body = b\<rparr>"

text \<open>
  Query results. \<^verbatim>\<open>.maybeSingle()\<close> and \<^verbatim>\<open>.single()\<close> both leave
  \<^verbatim>\<open>data\<close> null unless exactly one row matches.
\<close>

definition maybeSingle :: "'a list \<Rightarrow> 'a option" where
  "maybeSingle rows = (case rows of [r] \<Rightarrow> Some r | _ \<Rightarrow> None)"

definition select_by_login :: "principal list \<Rightarrow> string \<Rightarrow> principal option" where
  "select_by_login rows ident = maybeSingle (filter (\<lambda>u. login_id u = ident) rows)"

definition select_by_id :: "principal list \<Rightarrow> nat \<Rightarrow> principal option" where
  "select_by_id rows i = maybeSingle (filter (\<lambda>u. principal_id u = i) rows)"

text \<open>
  \<^verbatim>\<open>.update({password_hash, must_change_password: false}).eq('id', id)\<close> on a
  principal table.
\<close>

definition update_password :: "principal list \<Rightarrow> nat \<Rightarrow> string \<Rightarrow> principal list" where
  "update_password rows i h =
     map (\<lambda>u. if principal_id u = i
               then u\<lparr>password_hash := h, must_change_password := Some False\<rparr> else u) rows"

datatype table_name = Admins | Teachers | Students

definition from_table :: "world \<Rightarrow> table_name \<Rightarrow> principal list" where
  "from_table w tableName =
     (case tableName of Admins \<Rightarrow> admins w | Teachers \<Rightarrow> teachers w | Students \<Rightarrow> students w)"

definition update_table :: "world \<Rightarrow> table_name \<Rightarrow> nat \<Rightarrow> string \<Rightarrow> world" where
  "update_table w tableName i h =
     (case tableName of
        Admins \<Rightarrow> w\<lparr>admins := update_password (admins w) i h\<rparr>
      | Teachers \<Rightarrow> w\<lparr>teachers := update_password (teachers w) i h\<rparr>
      | Students \<Rightarrow> w\<lparr>students := update_password (students w) i h\<rparr>)"

text \<open>
  \<^verbatim>\<open>.update({used: true}).eq('user_id', id).eq('user_type', role).eq('used', false)\<close>
\<close>

definition invalidate_tokens :: "otp_token list \<Rightarrow> nat \<Rightarrow> string \<Rightarrow> otp_token list" where
  "invalidate_tokens rows i role =
     map (\<lambda>t. if user_id t = i \<and> user_type t = role \<and> used t = False
               then t\<lparr>used := True\<rparr> else t) rows"

text \<open>\<^verbatim>\<open>.update({used: true}).eq('id', id)\<close>\<close>

definition consume_token :: "otp_token list \<Rightarrow> nat \<Rightarrow> otp_token list" where
  "consume_token rows i = map (\<lambda>t. if token_id t = i then t\<lparr>used := True\<rparr> else t) rows"

text \<open>
  \<^verbatim>\<open>.insert({...})\<close> into \<^verbatim>\<open>otp_tokens\<close>: the store assigns a primary key that no
  row has, and stamps \<^verbatim>\<open>created_at\<close>.
\<close>

definition fresh_token_id :: "otp_token list \<Rightarrow> nat" where
  "fresh_token_id rows = Suc (fold max (map token_id rows) 0)"

definition insert_token ::
  "otp_token list \<Rightarrow> nat \<Rightarrow> string \<Rightarrow> nat \<Rightarrow> string \<Rightarrow> nat \<Rightarrow> otp_token list" where
  "insert_token rows now role i otpHash expiresAt =
     rows @ [\<lparr>token_id = fresh_token_id rows, user_type = role, user_id = i,
              otp_code_hash = otpHash, expires_at = expiresAt, used = False,
              created_at = now\<rparr>]"

text \<open>
  The query of verify-otp: the unused tokens of the principal that expire strictly after
  \<open>now\<close>, most recently created first.
\<close>

definition select_live_tokens :: "otp_token list \<Rightarrow> string \<Rightarrow> nat \<Rightarrow> nat \<Rightarrow> otp_token list" where
  "select_live_tokens rows role i now =
     rev (sort_key created_at
       (filter (\<lambda>t. user_type t = role \<and> user_id t = i \<and> used t = False \<and> expires_at t > now)
          rows))"

text \<open>\<^verbatim>\<open>logActivity\<close>: the insert into \<^verbatim>\<open>activity_logs\<close>; a failure is swallowed.\<close>

definition logActivity ::
  "world \<Rightarrow> string \<Rightarrow> nat \<Rightarrow> string \<Rightarrow> (string \<times> string) list \<Rightarrow> world" where
  "logActivity w userType userId action details =
     w\<lparr>activity_logs := activity_logs w @
          [\<lparr>log_user_type = userType, log_user_id = userId, log_action = action,
            log_details = details\<rparr>]\<rparr>"

text \<open>
  \<^verbatim>\<open>sendOTPEmail\<close> (src/config/email.js): whether the SMTP transport accepts the mail
  is the input \<open>smtp_up\<close>; when it does not, the function throws.
\<close>

definition sendOTPEmail ::
  "bool \<Rightarrow> world \<Rightarrow> string \<Rightarrow> string \<Rightarrow> string \<Rightarrow> string + world" where
  "sendOTPEmail smtp_up w address otp userName =
     (if smtp_up then Inr (w\<lparr>outbox := outbox w @ [(address, otp, userName)]\<rparr>)
      else Inl ''Failed to send OTP email'')"

section \<open>Rate limiters (src/middleware/rateLimiter.js)\<close>

text \<open>
  The options objects handed to \<^verbatim>\<open>rateLimit\<close>. \<open>max_requests\<close> is the option
  \<^verbatim>\<open>max\<close>. The login limiter sets no key generator, so the library's default (the
  client address) applies.
\<close>

record rate_limit_options =
  windowMs :: nat
  max_requests :: nat
  limit_message :: payload
  standardHeaders :: bool
  legacyHeaders :: bool
  keyGenerator :: "request \<Rightarrow> string"

definition otpRequestLimiter :: rate_limit_options where
  "otpRequestLimiter =
     \<lparr>windowMs = 60 * 60 * 1000,
      max_requests = 5,
      limit_message = Error ''Too many OTP requests. Please try again after an hour.'',
      standardHeaders = True,
      legacyHeaders = False,
      keyGenerator = (\<lambda>req. if truthy (body_identifier (req_body req))
                              then value_of (body_identifier (req_body req)) else req_ip req)\<rparr>"

definition loginLimiter :: rate_limit_options where
  "loginLimiter =
     \<lparr>windowMs = 15 * 60 * 1000,
      max_requests = 10,
      limit_message = Error ''Too many login attempts. Please try again after 15 minutes.'',
      standardHeaders = True,
      legacyHeaders = False,
      keyGenerator = req_ip\<rparr>"

section \<open>Auth service (src/routes/auth.js)\<close>

text \<open>
  Each handler takes the world (and, where it reads it, the session) and returns its
  response with the world (and session) it leaves behind. The inputs a handler takes from
  its environment are arguments: the clock \<open>now\<close>, the draw \<open>r\<close> of
  \<^verbatim>\<open>Math.random()\<close>, the salt bcrypt draws, and whether the mail transport is up.
  With a reliable store nothing inside a handler throws, so the outer
  \<^verbatim>\<open>catch\<close> blocks (status 500) have no counterpart.
\<close>

definition login ::
  "bcrypt \<Rightarrow> world \<Rightarrow> session_user option \<Rightarrow> req_body
     \<Rightarrow> response \<times> world \<times> session_user option" where
  "login B w session b =
     (if \<not> truthy (body_role b) \<or> \<not> truthy (body_username b) \<or> \<not> truthy (body_password b)
      then (json 400 (Error ''Role, username, and password are required''), w, session)
      else
        let role = value_of (body_role b);
            username = value_of (body_username b);
            password = value_of (body_password b);
            found =
              (if role = ''admin'' then Some (select_by_login (admins w) username)
               else if role = ''teacher'' then Some (select_by_login (teachers w) username)
               else if role = ''student'' then Some (select_by_login (students w) username)
               else None)
        in case found of
             None \<Rightarrow> (json 400 (Error ''Invalid role''), w, session)
           | Some None \<Rightarrow> (json 401 (Error ''Invalid credentials''), w, session)
           | Some (Some user) \<Rightarrow>
               if \<not> comparePassword B password (password_hash user)
               then (json 401 (Error ''Invalid credentials''), w, session)
               else
                 let sessionUser =
                       \<lparr>su_id = principal_id user,
                        su_role = role,
                        su_username = login_id user,
                        su_fullName = full_name user,
                        su_email = email user,
                        su_departmentId = department_id user,
                        su_mustChangePassword =
                          (case must_change_password user of None \<Rightarrow> False | Some f \<Rightarrow> f)\<rparr>;
                     w = logActivity w role (principal_id user) ''login''
                           [(''username'', login_id user)]
                 in (json 200 (User sessionUser), w, Some sessionUser))"

definition change_password ::
  "bcrypt \<Rightarrow> nat \<Rightarrow> world \<Rightarrow> session_user option \<Rightarrow> req_body
     \<Rightarrow> response \<times> world \<times> session_user option" where
  "change_password B salt w session b =
     (case session of
        None \<Rightarrow> (json 401 (Error ''Unauthorized''), w, session)
      | Some su \<Rightarrow>
          let role = su_role su; i = su_id su in
          if \<not> truthy (body_currentPassword b) \<or> \<not> truthy (body_newPassword b)
          then (json 400 (Error ''Current and new passwords are required''), w, session)
          else
            let currentPassword = value_of (body_currentPassword b);
                newPassword = value_of (body_newPassword b)
            in if length newPassword < 8
               then (json 400 (Error ''Password must be at least 8 characters long''), w, session)
               else
                 let tableName =
                       (if role = ''admin'' then Admins
                        else if role = ''teacher'' then Teachers else Students)
                 in (case select_by_id (from_table w tableName) i of
                      None \<Rightarrow> (json 404 (Error ''User not found''), w, session)
                    | Some user \<Rightarrow>
                        if \<not> comparePassword B currentPassword (password_hash user)
                        then (json 401 (Error ''Current password is incorrect''), w, session)
                        else
                          let newPasswordHash = hashPassword B salt newPassword;
                              w = update_table w tableName i newPasswordHash;
                              session = Some (su\<lparr>su_mustChangePassword := False\<rparr>);
                              w = logActivity w role i ''password_changed'' []
                          in (json 200 (Message ''Password changed successfully''), w, session)))"

definition forgot_password ::
  "bcrypt \<Rightarrow> nat \<Rightarrow> real \<Rightarrow> nat \<Rightarrow> bool \<Rightarrow> world \<Rightarrow> req_body \<Rightarrow> response \<times> world" where
  "forgot_password B now r salt smtp_up w b =
     (if \<not> truthy (body_role b) \<or> \<not> truthy (body_identifier b)
      then (json 400 (Error ''Role and identifier are required''), w)
      else
        let role = value_of (body_role b);
            identifier = value_of (body_identifier b)
        in if role = ''admin''
           then (json 400 (Error ''Password reset not available for admin accounts''), w)
           else
             let found =
                   (if role = ''teacher'' then Some (select_by_login (teachers w) identifier)
                    else if role = ''student'' then Some (select_by_login (students w) identifier)
                    else None)
             in case found of
                  None \<Rightarrow> (json 400 (Error ''Invalid role''), w)
                | Some None \<Rightarrow>
                    (json 200 (Message
                       ''If the account exists, an OTP has been sent to the registered email''), w)
                | Some (Some user) \<Rightarrow>
                    let w = w\<lparr>otp_tokens :=
                                invalidate_tokens (otp_tokens w) (principal_id user) role\<rparr>;
                        otp = generateOTP r;
                        otpHash = hashPassword B salt otp;
                        expiresAt = now + 10 * 60 * 1000;
                        w = w\<lparr>otp_tokens :=
                                insert_token (otp_tokens w) now role (principal_id user)
                                  otpHash expiresAt\<rparr>
                    in (case sendOTPEmail smtp_up w (email user) otp (full_name user) of
                         Inr w \<Rightarrow>
                           (json 200 (Message
                              ''OTP has been sent to your registered email address''),
                            logActivity w role (principal_id user) ''otp_requested''
                              [(''identifier'', identifier)])
                       | Inl emailError \<Rightarrow>
                           (json 503 (Error
                              ''Failed to send OTP email. Please contact your administrator.''),
                            w\<lparr>otp_tokens :=
                                invalidate_tokens (otp_tokens w) (principal_id user) role\<rparr>)))"

text \<open>The loop of verify-otp: the first token of the list whose hash verifies the code.\<close>

fun first_valid_token :: "bcrypt \<Rightarrow> string \<Rightarrow> otp_token list \<Rightarrow> otp_token option" where
  "first_valid_token B otp [] = None"
| "first_valid_token B otp (token # rest) =
     (if comparePassword B otp (otp_code_hash token) then Some token
      else first_valid_token B otp rest)"

definition verify_otp ::
  "bcrypt \<Rightarrow> nat \<Rightarrow> nat \<Rightarrow> world \<Rightarrow> req_body \<Rightarrow> response \<times> world" where
  "verify_otp B now salt w b =
     (if \<not> truthy (body_role b) \<or> \<not> truthy (body_identifier b) \<or> \<not> truthy (body_otp b)
         \<or> \<not> truthy (body_newPassword b)
      then (json 400 (Error ''All fields are required''), w)
      else
        let role = value_of (body_role b);
            identifier = value_of (body_identifier b);
            otp = value_of (body_otp b);
            newPassword = value_of (body_newPassword b)
        in if length newPassword < 8
           then (json 400 (Error ''Password must be at least 8 characters long''), w)
           else if role = ''admin''
           then (json 400 (Error ''Password reset not available for admin accounts''), w)
           else
             let found =
                   (if role = ''teacher''
                    then Some (Teachers, select_by_login (teachers w) identifier)
                    else if role = ''student''
                    then Some (Students, select_by_login (students w) identifier)
                    else None)
             in case found of
                  None \<Rightarrow> (json 400 (Error ''Invalid role''), w)
                | Some (tableName, None) \<Rightarrow> (json 400 (Error ''Invalid credentials''), w)
                | Some (tableName, Some user) \<Rightarrow>
                    let otpTokens =
                          select_live_tokens (otp_tokens w) role (principal_id user) now
                    in if otpTokens = []
                       then (json 400 (Error ''OTP expired or invalid''), w)
                       else
                         (case first_valid_token B otp otpTokens of
                           None \<Rightarrow> (json 400 (Error ''Invalid OTP''), w)
                         | Some validToken \<Rightarrow>
                             let w = w\<lparr>otp_tokens :=
                                         consume_token (otp_tokens w) (token_id validToken)\<rparr>;
                                 newPasswordHash = hashPassword B salt newPassword;
                                 w = update_table w tableName (principal_id user) newPasswordHash;
                                 w = logActivity w role (principal_id user)
                                       ''password_reset_via_otp'' [(''identifier'', identifier)]
                             in (json 200 (Message ''Password reset successfully''), w)))"

section \<open>Vocabulary of the specification\<close>

text \<open>The table a role's principals live in, as every handler dispatches.\<close>

definition principals_of :: "world \<Rightarrow> string \<Rightarrow> principal list" where
  "principals_of w role =
     (if role = ''admin'' then admins w
      else if role = ''teacher'' then teachers w else students w)"

text \<open>The unused tokens of a principal.\<close>

definition unused_tokens :: "world \<Rightarrow> string \<Rightarrow> nat \<Rightarrow> otp_token list" where
  "unused_tokens w role i =
     filter (\<lambda>t. user_type t = role \<and> user_id t = i \<and> used t = False) (otp_tokens w)"

text \<open>The error class \<open>InvalidOTP\<close>: the two 400 responses of the token check.\<close>

definition invalid_otp :: "response \<Rightarrow> bool" where
  "invalid_otp res =
     (res = json 400 (Error ''OTP expired or invalid'') \<or> res = json 400 (Error ''Invalid OTP''))"

definition invalid_credentials :: response where
  "invalid_credentials = json 401 (Error ''Invalid credentials'')"

definition generic_success :: response where
  "generic_success =
     json 200 (Message ''If the account exists, an OTP has been sent to the registered email'')"

text \<open>Durations in milliseconds, the unit of \<open>windowMs\<close> and of the clock.\<close>

definition minutes :: "nat \<Rightarrow> nat" where
  "minutes n = n * 60 * 1000"

text \<open>A fixture: one admin, one teacher and two students, no tokens yet.\<close>

definition demo_student :: principal where
  "demo_student =
     \<lparr>principal_id = 7, login_id = ''2024001'', password_hash = ''aStudent@123'',
      full_name = ''Asha'', email = ''asha@example.org'', department_id = Some 1,
      must_change_password = Some True\<rparr>"

definition demo_world :: world where
  "demo_world =
     \<lparr>admins = [\<lparr>principal_id = 1, login_id = ''admin'', password_hash = ''aAdmin@123'',
                 full_name = ''System Administrator'', email = ''admin@example.org'',
                 department_id = None, must_change_password = None\<rparr>],
      teachers = [\<lparr>principal_id = 3, login_id = ''T10001'', password_hash = ''bTeacher@123'',
                   full_name = ''Ravi'', email = ''ravi@example.org'', department_id = Some 1,
                   must_change_password = Some False\<rparr>],
      students = [demo_student,
                  \<lparr>principal_id = 8, login_id = ''2024002'', password_hash = ''bStudent@456'',
                   full_name = ''Binu'', email = ''binu@example.org'', department_id = Some 1,
                   must_change_password = Some False\<rparr>],
      otp_tokens = [],
      activity_logs = [],
      outbox = []\<rparr>"

definition demo_session :: session_user where
  "demo_session =
     \<lparr>su_id = 7, su_role = ''student'', su_username = ''2024001'', su_fullName = ''Asha'',
      su_email = ''asha@example.org'', su_departmentId = Some 1, su_mustChangePassword = True\<rparr>"

definition recovery_body :: "string \<Rightarrow> string \<Rightarrow> string \<Rightarrow> string \<Rightarrow> req_body" where
  "recovery_body role identifier otp newPassword =
     \<lparr>body_role = Some role, body_username = None, body_password = None,
      body_currentPassword = None, body_newPassword = Some newPassword,
      body_identifier = Some identifier, body_otp = Some otp\<rparr>"

definition forgot_body :: "string \<Rightarrow> string \<Rightarrow> req_body" where
  "forgot_body role identifier =
     \<lparr>body_role = Some role, body_username = None, body_password = None,
      body_currentPassword = None, body_newPassword = None,
      body_identifier = Some identifier, body_otp = None\<rparr>"

definition login_body :: "string \<Rightarrow> string \<Rightarrow> string \<Rightarrow> req_body" where
  "login_body role username password =
     \<lparr>body_role = Some role, body_username = Some username, body_password = Some password,
      body_currentPassword = None, body_newPassword = None,
      body_identifier = None, body_otp = None\<rparr>"

definition change_body :: "string \<Rightarrow> string \<Rightarrow> req_body" where
  "change_body currentPassword newPassword =
     \<lparr>body_role = None, body_username = None, body_password = None,
      body_currentPassword = Some currentPassword, body_newPassword = Some newPassword,
      body_identifier = None, body_otp = None\<rparr>"

section \<open>The service as a sequence of requests\<close>

text \<open>
  The server handles one request at a time. An event is one request with the inputs its
  handler takes from the environment. \<^verbatim>\<open>otp_tokens\<close> is named in
  src/routes/auth.js only: every other route of the repository (the admin, teacher and
  student pages, the seed script) may change the remaining tables, the logs and the mail,
  and leaves the token ledger alone; \<open>OtherRoute v\<close> is such a request, \<open>v\<close> holding
  what it leaves in those tables.
\<close>

datatype event =
    Login "session_user option" req_body
  | ChangePassword nat "session_user option" req_body
  | ForgotPassword nat real nat bool req_body
  | VerifyOtp nat nat req_body
  | OtherRoute world

fun step :: "bcrypt \<Rightarrow> event \<Rightarrow> world \<Rightarrow> world" where
  "step B (Login session b) w = fst (snd (login B w session b))"
| "step B (ChangePassword salt session b) w = fst (snd (change_password B salt w session b))"
| "step B (ForgotPassword now r salt smtp_up b) w = snd (forgot_password B now r salt smtp_up w b)"
| "step B (VerifyOtp now salt b) w = snd (verify_otp B now salt w b)"
| "step B (OtherRoute v) w = v\<lparr>otp_tokens := otp_tokens w\<rparr>"

text \<open>The world after a sequence of requests, the first of the list handled first.\<close>

definition run :: "bcrypt \<Rightarrow> event list \<Rightarrow> world \<Rightarrow> world" where
  "run B events w = fold (step B) events w"

section \<open>Properties of the secret generator\<close>

text \<open>A draw within the contract of \<^verbatim>\<open>Math.random\<close> indexes inside the alphabet.\<close>


lemma pick_member:
  assumes "0 \<le> r" "r < 1" "s \<noteq> []"
  shows "\<exists>c. pick s r = [c] \<and> c \<in> set s"
proof -
  have pos: "0 < real (length s)" using assms(3) by simp
  have lo: "0 \<le> \<lfloor>r * real (length s)\<rfloor>" using assms(1) by simp
  have "r * real (length s) < real (length s)" using assms(2) pos by simp
  then have hi: "\<lfloor>r * real (length s)\<rfloor> < int (length s)" by (simp add: floor_less_iff)
  then have "nat \<lfloor>r * real (length s)\<rfloor> < length s" using lo by linarith
  then show ?thesis using lo hi by (simp add: pick_def js_char_at_def)
qed

lemma fill_loop_shape:
  "math_random rnd \<Longrightarrow>
   \<exists>fill. snd (fill_loop rnd len k i password) = password @ fill
           \<and> int (length fill) = max 0 (len - i) \<and> set fill \<subseteq> set all_chars"
proof (induction rnd len k i password rule: fill_loop.induct)
  case (1 rnd len k i password)
  note assms = \<open>math_random rnd\<close>
  show ?case
  proof (cases "i < len")
    case False
    then show ?thesis by simp
  next
    case True
    have "all_chars \<noteq> []" by (simp add: all_chars_def uppercase_def)
    moreover have "0 \<le> rnd k" "rnd k < 1" using assms by (simp_all add: math_random_def)
    ultimately obtain c where c: "pick all_chars (rnd k) = [c]" "c \<in> set all_chars"
      using pick_member by blast
    from "1.IH"[OF True assms] obtain fill where
      f: "snd (fill_loop rnd len (Suc k) (i + 1) (password @ pick all_chars (rnd k)))
            = (password @ pick all_chars (rnd k)) @ fill"
         "int (length fill) = max 0 (len - (i + 1))" "set fill \<subseteq> set all_chars"
      by blast
    have "snd (fill_loop rnd len k i password) = password @ (c # fill)"
      using True f(1) c(1) by simp
    moreover have "int (length (c # fill)) = max 0 (len - i)" using True f(2) by simp
    moreover have "set (c # fill) \<subseteq> set all_chars" using c(2) f(3) by simp
    ultimately show ?thesis by blast
  qed
qed

lemma insert_random_mset: "mset (insert_random rnd k x ys) = add_mset x (mset ys)"
  by (induction ys arbitrary: k) simp_all

lemma insertion_sort_from_mset: "mset (insertion_sort_from rnd k xs) = mset xs"
  by (induction xs arbitrary: k) (simp_all add: insert_random_mset)

lemma insertion_sort_permutes: "permutes_input insertion_sort"
  by (simp add: permutes_input_def insertion_sort_def insertion_sort_from_mset)

lemma generatePassword_shape:
  assumes "math_random rnd" "permutes_input array_sort"
  shows "\<exists>u l d s fill. u \<in> set uppercase \<and> l \<in> set lowercase \<and> d \<in> set numbers \<and> s \<in> set symbols
          \<and> int (length fill) = max 0 (n - 4) \<and> set fill \<subseteq> set all_chars
          \<and> mset (generatePassword array_sort rnd (Some n)) = mset ([u, l, d, s] @ fill)"
proof -
  have r: "\<And>k. 0 \<le> rnd k" "\<And>k. rnd k < 1" using assms(1) by (simp_all add: math_random_def)
  have ne: "uppercase \<noteq> []" "lowercase \<noteq> []" "numbers \<noteq> []" "symbols \<noteq> []"
    by (simp_all add: uppercase_def lowercase_def numbers_def symbols_def)
  obtain u where u: "pick uppercase (rnd 0) = [u]" "u \<in> set uppercase"
    using pick_member[OF r(1) r(2) ne(1)] by blast
  obtain l where l: "pick lowercase (rnd 1) = [l]" "l \<in> set lowercase"
    using pick_member[OF r(1) r(2) ne(2)] by blast
  obtain d where d: "pick numbers (rnd 2) = [d]" "d \<in> set numbers"
    using pick_member[OF r(1) r(2) ne(3)] by blast
  obtain s where s: "pick symbols (rnd 3) = [s]" "s \<in> set symbols"
    using pick_member[OF r(1) r(2) ne(4)] by blast
  obtain fill where f: "snd (fill_loop rnd n 4 4 [u, l, d, s]) = [u, l, d, s] @ fill"
      "int (length fill) = max 0 (n - 4)" "set fill \<subseteq> set all_chars"
    using fill_loop_shape[OF assms(1), of n 4 4 "[u, l, d, s]"] by blast
  have "generatePassword array_sort rnd (Some n)
          = array_sort (\<lambda>j. rnd (fst (fill_loop rnd n 4 4 [u, l, d, s]) + j)) (snd (fill_loop rnd n 4 4 [u, l, d, s]))"
    unfolding generatePassword_def Let_def u(1) l(1) d(1) s(1)
    by (simp add: split_beta del: fill_loop.simps)
  then have "mset (generatePassword array_sort rnd (Some n)) = mset ([u, l, d, s] @ fill)"
    using assms(2) f(1) by (simp add: permutes_input_def del: fill_loop.simps)
  then show ?thesis using u(2) l(2) d(2) s(2) f(2) f(3) by blast
qed

text \<open>
  Claim C8. For every length \<open>n \<ge> 8\<close>, \<open>generatePassword(n)\<close> returns a string of
  length exactly \<open>n\<close> that contains an uppercase letter, a lowercase letter, a digit and
  a symbol of \<open>@#$!\<close>, and every character of it comes from one of these four classes.
  The draws obey the contract of \<^verbatim>\<open>Math.random\<close> and the engine's sort rearranges
  its input.
\<close>

theorem generatePassword_classes:
  assumes "math_random rnd" "permutes_input array_sort" "8 \<le> n"
  shows "int (length (generatePassword array_sort rnd (Some n))) = n
       \<and> (\<exists>c. c \<in> set (generatePassword array_sort rnd (Some n)) \<and> c \<in> set uppercase)
       \<and> (\<exists>c. c \<in> set (generatePassword array_sort rnd (Some n)) \<and> c \<in> set lowercase)
       \<and> (\<exists>c. c \<in> set (generatePassword array_sort rnd (Some n)) \<and> c \<in> set numbers)
       \<and> (\<exists>c. c \<in> set (generatePassword array_sort rnd (Some n)) \<and> c \<in> set symbols)
       \<and> set (generatePassword array_sort rnd (Some n))
            \<subseteq> set uppercase \<union> set lowercase \<union> set numbers \<union> set symbols"
proof -
  let ?p = "generatePassword array_sort rnd (Some n)"
  obtain u l d s fill where h: "u \<in> set uppercase" "l \<in> set lowercase" "d \<in> set numbers"
      "s \<in> set symbols" "int (length fill) = max 0 (n - 4)" "set fill \<subseteq> set all_chars"
      "mset ?p = mset ([u, l, d, s] @ fill)"
    using generatePassword_shape[OF assms(1,2), of n] by blast
  have len: "length ?p = length ([u, l, d, s] @ fill)" using h(7) by (rule mset_eq_length)
  have st: "set ?p = set ([u, l, d, s] @ fill)" using h(7) by (rule mset_eq_setD)
  have "int (length ?p) = n" using len h(5) assms(3) by simp
  moreover have "u \<in> set ?p" "l \<in> set ?p" "d \<in> set ?p" "s \<in> set ?p" using st by simp_all
  moreover have "set ?p \<subseteq> set uppercase \<union> set lowercase \<union> set numbers \<union> set symbols"
    using st h(1-4,6) by (auto simp: all_chars_def)
  ultimately show ?thesis using h(1-4) by blast
qed

theorem generatePassword_classes_witness:
  "math_random (\<lambda>k. if even k then 1/3 else 3/4) \<and> permutes_input insertion_sort \<and> 8 \<le> (10::int)
   \<and> generatePassword insertion_sort (\<lambda>k. if even k then 1/3 else 3/4) (Some 10) = ''I!t3WxxWWx''
   \<and> int (length ''I!t3WxxWWx'') = 10
   \<and> (\<exists>c. c \<in> set ''I!t3WxxWWx'' \<and> c \<in> set uppercase)
   \<and> (\<exists>c. c \<in> set ''I!t3WxxWWx'' \<and> c \<in> set lowercase)
   \<and> (\<exists>c. c \<in> set ''I!t3WxxWWx'' \<and> c \<in> set numbers)
   \<and> (\<exists>c. c \<in> set ''I!t3WxxWWx'' \<and> c \<in> set symbols)"
proof -
  have r: "math_random (\<lambda>k. if even k then 1/3 else 3/4)" by (simp add: math_random_def)
  have e: "generatePassword insertion_sort (\<lambda>k. if even k then 1/3 else 3/4) (Some 10) = ''I!t3WxxWWx''"
    by (simp add: generatePassword_def pick_def js_char_at_def uppercase_def lowercase_def
        numbers_def symbols_def all_chars_def insertion_sort_def)
  show ?thesis
    using generatePassword_classes[OF r insertion_sort_permutes, of 10] e r insertion_sort_permutes
    by simp
qed

text \<open>
  Claim C10. For every requested length \<open>n\<close>, negative ones included,
  \<open>generatePassword(n)\<close> returns a string of length \<open>max(n, 4)\<close>: the four
  guaranteed characters are appended before the fill loop runs, so a request below 4 still
  yields four characters. The function has no failing branch.
\<close>

theorem generatePassword_length:
  assumes "math_random rnd" "permutes_input array_sort"
  shows "int (length (generatePassword array_sort rnd (Some n))) = max n 4"
proof -
  let ?p = "generatePassword array_sort rnd (Some n)"
  obtain u l d s fill where h: "int (length fill) = max 0 (n - 4)"
      "mset ?p = mset ([u, l, d, s] @ fill)"
    using generatePassword_shape[OF assms(1,2), of n] by blast
  have "length ?p = length ([u, l, d, s] @ fill)" using h(2) by (rule mset_eq_length)
  then show ?thesis using h(1) by simp
qed

theorem generatePassword_length_witness:
  "math_random (\<lambda>k. 1/2) \<and> permutes_input insertion_sort
   \<and> generatePassword insertion_sort (\<lambda>k. 1/2) (Some (- 3)) = ''$5nN''
   \<and> int (length ''$5nN'') = max (- 3) 4"
proof -
  have r: "math_random (\<lambda>k. 1/2)" by (simp add: math_random_def)
  have e: "generatePassword insertion_sort (\<lambda>k. 1/2) (Some (- 3)) = ''$5nN''"
    by (simp add: generatePassword_def pick_def js_char_at_def uppercase_def lowercase_def
        numbers_def symbols_def all_chars_def insertion_sort_def)
  show ?thesis
    using generatePassword_length[OF r insertion_sort_permutes, of "- 3"] e r insertion_sort_permutes
    by simp
qed

section \<open>Properties of the auth service\<close>

subsection \<open>Queries\<close>

lemma truthy_value: "truthy v \<Longrightarrow> v = Some (value_of v) \<and> value_of v \<noteq> []"
  by (cases v) (simp_all add: truthy_def value_of_def)

lemma maybeSingle_map: "maybeSingle (map f rows) = map_option f (maybeSingle rows)"
proof (cases rows)
  case Nil
  then show ?thesis by (simp add: maybeSingle_def)
next
  case (Cons r rest)
  then show ?thesis by (cases rest) (simp_all add: maybeSingle_def)
qed

lemma maybeSingle_Some: "maybeSingle rows = Some r \<longleftrightarrow> rows = [r]"
proof (cases rows)
  case Nil
  then show ?thesis by (simp add: maybeSingle_def)
next
  case (Cons x rest)
  then show ?thesis by (cases rest) (auto simp: maybeSingle_def)
qed

subsection \<open>Login\<close>

text \<open>The handler on a well-formed request with one of the three roles.\<close>

lemma login_found:
  assumes "truthy (body_role b)" "truthy (body_username b)" "truthy (body_password b)"
    and "value_of (body_role b) = ''admin'' \<or> value_of (body_role b) = ''teacher''
         \<or> value_of (body_role b) = ''student''"
  shows "login B w session b =
    (case select_by_login (principals_of w (value_of (body_role b))) (value_of (body_username b)) of
       None \<Rightarrow> (json 401 (Error ''Invalid credentials''), w, session)
     | Some user \<Rightarrow>
         if \<not> comparePassword B (value_of (body_password b)) (password_hash user)
         then (json 401 (Error ''Invalid credentials''), w, session)
         else (json 200 (User
                 \<lparr>su_id = principal_id user, su_role = value_of (body_role b),
                  su_username = login_id user, su_fullName = full_name user,
                  su_email = email user, su_departmentId = department_id user,
                  su_mustChangePassword =
                    (case must_change_password user of None \<Rightarrow> False | Some f \<Rightarrow> f)\<rparr>),
               logActivity w (value_of (body_role b)) (principal_id user) ''login''
                 [(''username'', login_id user)],
               Some \<lparr>su_id = principal_id user, su_role = value_of (body_role b),
                  su_username = login_id user, su_fullName = full_name user,
                  su_email = email user, su_departmentId = department_id user,
                  su_mustChangePassword =
                    (case must_change_password user of None \<Rightarrow> False | Some f \<Rightarrow> f)\<rparr>))"
proof -
  consider (a) "value_of (body_role b) = ''admin''" | (t) "value_of (body_role b) = ''teacher''"
    | (s) "value_of (body_role b) = ''student''"
    using assms(4) by blast
  then show ?thesis
  proof cases
    case a
    show ?thesis
      unfolding login_def principals_of_def Let_def a using assms(1-3)
      by (simp split: option.split)
  next
    case t
    show ?thesis
      unfolding login_def principals_of_def Let_def t using assms(1-3)
      by (simp split: option.split)
  next
    case s
    show ?thesis
      unfolding login_def principals_of_def Let_def s using assms(1-3)
      by (simp split: option.split)
  qed
qed

lemma select_by_login_absent:
  "\<forall>u\<in>set rows. login_id u \<noteq> ident \<Longrightarrow> select_by_login rows ident = None"
proof -
  assume "\<forall>u\<in>set rows. login_id u \<noteq> ident"
  then have "filter (\<lambda>u. login_id u = ident) rows = []" by (simp add: filter_empty_conv)
  then show ?thesis by (simp add: select_by_login_def maybeSingle_def)
qed

text \<open>
  Claim C1. A login whose role-specific identifier matches no principal and a login whose
  identifier exists but whose password does not verify are answered alike: status 401
  with the message \<open>Invalid credentials\<close>, the world and the session untouched. The
  caller cannot tell the two cases apart.
\<close>

theorem login_no_enumeration:
  assumes "truthy (body_role b1)" "truthy (body_username b1)" "truthy (body_password b1)"
    and "value_of (body_role b1) = ''admin'' \<or> value_of (body_role b1) = ''teacher''
         \<or> value_of (body_role b1) = ''student''"
    and "truthy (body_role b2)" "truthy (body_username b2)" "truthy (body_password b2)"
    and "value_of (body_role b2) = ''admin'' \<or> value_of (body_role b2) = ''teacher''
         \<or> value_of (body_role b2) = ''student''"
    and absent: "\<forall>u\<in>set (principals_of w (value_of (body_role b1))).
                   login_id u \<noteq> value_of (body_username b1)"
    and present: "select_by_login (principals_of w (value_of (body_role b2)))
                    (value_of (body_username b2)) = Some user"
    and wrong: "\<not> comparePassword B (value_of (body_password b2)) (password_hash user)"
  shows "login B w session b1 = (invalid_credentials, w, session)
       \<and> login B w session b2 = (invalid_credentials, w, session)
       \<and> fst (login B w session b1) = fst (login B w session b2)
       \<and> invalid_credentials = \<lparr>status = 401, body = Error ''Invalid credentials''\<rparr>"
proof -
  have "select_by_login (principals_of w (value_of (body_role b1))) (value_of (body_username b1))
          = None"
    using absent by (rule select_by_login_absent)
  then have one: "login B w session b1 = (invalid_credentials, w, session)"
    by (simp add: login_found[OF assms(1-4)] invalid_credentials_def)
  have two: "login B w session b2 = (invalid_credentials, w, session)"
    using present wrong by (simp add: login_found[OF assms(5-8)] invalid_credentials_def)
  show ?thesis using one two by (simp add: invalid_credentials_def json_def)
qed

lemma demo_students_lookup:
  "select_by_login (students demo_world) ''2024001'' = Some demo_student"
  by (simp add: select_by_login_def maybeSingle_def demo_world_def demo_student_def)

theorem login_no_enumeration_witness:
  "login toy_bcrypt demo_world None (login_body ''student'' ''nobody'' ''Student@123'')
     = (\<lparr>status = 401, body = Error ''Invalid credentials''\<rparr>, demo_world, None)
   \<and> login toy_bcrypt demo_world None (login_body ''student'' ''2024001'' ''guess'')
     = (\<lparr>status = 401, body = Error ''Invalid credentials''\<rparr>, demo_world, None)"
proof -
  let ?b1 = "login_body ''student'' ''nobody'' ''Student@123''"
  let ?b2 = "login_body ''student'' ''2024001'' ''guess''"
  have f1: "truthy (body_role ?b1)" "truthy (body_username ?b1)" "truthy (body_password ?b1)"
    by (simp_all add: login_body_def truthy_def)
  have r1: "value_of (body_role ?b1) = ''admin'' \<or> value_of (body_role ?b1) = ''teacher''
         \<or> value_of (body_role ?b1) = ''student''"
    by (simp add: login_body_def value_of_def)
  have f2: "truthy (body_role ?b2)" "truthy (body_username ?b2)" "truthy (body_password ?b2)"
    by (simp_all add: login_body_def truthy_def)
  have r2: "value_of (body_role ?b2) = ''admin'' \<or> value_of (body_role ?b2) = ''teacher''
         \<or> value_of (body_role ?b2) = ''student''"
    by (simp add: login_body_def value_of_def)
  have a: "\<forall>u\<in>set (principals_of demo_world (value_of (body_role ?b1))).
             login_id u \<noteq> value_of (body_username ?b1)"
    by (simp add: login_body_def value_of_def principals_of_def demo_world_def demo_student_def)
  have p: "select_by_login (principals_of demo_world (value_of (body_role ?b2)))
             (value_of (body_username ?b2)) = Some demo_student"
    by (simp add: login_body_def value_of_def principals_of_def demo_students_lookup)
  have c: "\<not> comparePassword toy_bcrypt (value_of (body_password ?b2)) (password_hash demo_student)"
    by (simp add: login_body_def value_of_def comparePassword_def toy_bcrypt_def demo_student_def)
  show ?thesis
    using login_no_enumeration[OF f1 r1 f2 r2 a p c, of None]
    by (simp add: invalid_credentials_def json_def)
qed

subsection \<open>The token ledger\<close>

lemma invalidate_tokens_length: "length (invalidate_tokens rows i role) = length rows"
  by (simp add: invalidate_tokens_def)

lemma invalidate_tokens_nth:
  assumes "k < length rows"
  shows "invalidate_tokens rows i role ! k =
           (if user_id (rows ! k) = i \<and> user_type (rows ! k) = role \<and> used (rows ! k) = False
            then (rows ! k)\<lparr>used := True\<rparr> else rows ! k)"
  using assms by (simp add: invalidate_tokens_def)

lemma invalidate_tokens_used:
  assumes "t \<in> set (invalidate_tokens rows i role)" "user_type t = role" "user_id t = i"
  shows "used t"
proof -
  from assms(1) obtain t0 where t0: "t0 \<in> set rows"
      "t = (if user_id t0 = i \<and> user_type t0 = role \<and> used t0 = False
            then t0\<lparr>used := True\<rparr> else t0)"
    by (auto simp: invalidate_tokens_def)
  show ?thesis
  proof (cases "user_id t0 = i \<and> user_type t0 = role \<and> used t0 = False")
    case True
    then show ?thesis using t0(2) by simp
  next
    case False
    then have "t = t0" using t0(2) by simp
    then show ?thesis using False assms(2,3) by auto
  qed
qed

lemma invalidate_tokens_ids: "map token_id (invalidate_tokens rows i role) = map token_id rows"
  by (induction rows) (simp_all add: invalidate_tokens_def)

lemma unused_after_invalidate:
  "filter (\<lambda>t. user_type t = role \<and> user_id t = i \<and> \<not> used t)
     (invalidate_tokens rows i role) = []"
proof -
  have "\<forall>t\<in>set (invalidate_tokens rows i role).
          \<not> (user_type t = role \<and> user_id t = i \<and> \<not> used t)"
    using invalidate_tokens_used by blast
  then show ?thesis by (simp only: filter_empty_conv)
qed

lemma fold_max_upper: "x \<in> set xs \<Longrightarrow> x \<le> fold max xs (a::nat)"
proof (induction xs arbitrary: a)
  case Nil
  then show ?case by simp
next
  case (Cons y ys)
  have mono: "\<And>b. b \<le> fold max ys b"
  proof -
    fix b :: nat
    show "b \<le> fold max ys b"
    proof (induction ys arbitrary: b)
      case Nil
      then show ?case by simp
    next
      case (Cons z zs)
      have "b \<le> max z b" by simp
      also have "\<dots> \<le> fold max zs (max z b)" by (rule Cons.IH)
      finally show ?case by simp
    qed
  qed
  show ?case
  proof (cases "x = y")
    case True
    have "y \<le> max y a" by simp
    also have "\<dots> \<le> fold max ys (max y a)" by (rule mono)
    finally show ?thesis using True by simp
  next
    case False
    then have "x \<in> set ys" using Cons.prems by simp
    then show ?thesis using Cons.IH by simp
  qed
qed

lemma fresh_token_id_new: "fresh_token_id rows \<notin> token_id ` set rows"
proof
  assume "fresh_token_id rows \<in> token_id ` set rows"
  then have "fresh_token_id rows \<in> set (map token_id rows)" by simp
  then have "fresh_token_id rows \<le> fold max (map token_id rows) 0" by (rule fold_max_upper)
  then show False by (simp add: fresh_token_id_def)
qed

subsection \<open>Forgot password\<close>

text \<open>The handler on a well-formed request for a teacher or student that does not exist.\<close>

lemma forgot_password_unknown:
  assumes "truthy (body_role b)" "truthy (body_identifier b)"
    and "value_of (body_role b) = ''teacher'' \<or> value_of (body_role b) = ''student''"
    and "select_by_login (principals_of w (value_of (body_role b))) (value_of (body_identifier b))
           = None"
  shows "forgot_password B now r salt smtp_up w b = (generic_success, w)"
proof -
  consider (t) "value_of (body_role b) = ''teacher''" | (s) "value_of (body_role b) = ''student''"
    using assms(3) by blast
  then show ?thesis
  proof cases
    case t
    show ?thesis
      using assms(1,2,4) unfolding forgot_password_def principals_of_def Let_def t
      by (simp add: generic_success_def)
  next
    case s
    show ?thesis
      using assms(1,2,4) unfolding forgot_password_def principals_of_def Let_def s
      by (simp add: generic_success_def)
  qed
qed

text \<open>The same for a principal that exists: what is issued, and the two ways it ends.\<close>

lemma forgot_password_found:
  assumes "truthy (body_role b)" "truthy (body_identifier b)"
    and "value_of (body_role b) = ''teacher'' \<or> value_of (body_role b) = ''student''"
    and "select_by_login (principals_of w (value_of (body_role b))) (value_of (body_identifier b))
           = Some user"
  shows "forgot_password B now r salt smtp_up w b =
     (if smtp_up
      then (json 200 (Message ''OTP has been sent to your registered email address''),
            logActivity
              (w\<lparr>otp_tokens :=
                   insert_token
                     (invalidate_tokens (otp_tokens w) (principal_id user) (value_of (body_role b)))
                     now (value_of (body_role b)) (principal_id user)
                     (hashPassword B salt (generateOTP r)) (now + 10 * 60 * 1000),
                 outbox := outbox w @ [(email user, generateOTP r, full_name user)]\<rparr>)
              (value_of (body_role b)) (principal_id user) ''otp_requested''
              [(''identifier'', value_of (body_identifier b))])
      else (json 503 (Error ''Failed to send OTP email. Please contact your administrator.''),
            w\<lparr>otp_tokens :=
                 invalidate_tokens
                   (insert_token
                      (invalidate_tokens (otp_tokens w) (principal_id user) (value_of (body_role b)))
                      now (value_of (body_role b)) (principal_id user)
                      (hashPassword B salt (generateOTP r)) (now + 10 * 60 * 1000))
                   (principal_id user) (value_of (body_role b))\<rparr>))"
proof -
  consider (t) "value_of (body_role b) = ''teacher''" | (s) "value_of (body_role b) = ''student''"
    using assms(3) by blast
  then show ?thesis
  proof cases
    case t
    show ?thesis
      using assms(1,2,4) unfolding forgot_password_def principals_of_def Let_def t
      by (simp add: sendOTPEmail_def)
  next
    case s
    show ?thesis
      using assms(1,2,4) unfolding forgot_password_def principals_of_def Let_def s
      by (simp add: sendOTPEmail_def)
  qed
qed

lemma forgot_password_tokens:
  assumes "truthy (body_role b)" "truthy (body_identifier b)"
    and "value_of (body_role b) = ''teacher'' \<or> value_of (body_role b) = ''student''"
    and "select_by_login (principals_of w (value_of (body_role b))) (value_of (body_identifier b))
           = Some user"
  shows "otp_tokens (snd (forgot_password B now r salt smtp_up w b)) =
           invalidate_tokens (otp_tokens w) (principal_id user) (value_of (body_role b)) @
           [\<lparr>token_id = fresh_token_id (otp_tokens w), user_type = value_of (body_role b),
             user_id = principal_id user, otp_code_hash = hashPassword B salt (generateOTP r),
             expires_at = now + 10 * 60 * 1000, used = \<not> smtp_up, created_at = now\<rparr>]"
proof -
  have ids: "fresh_token_id (invalidate_tokens (otp_tokens w) (principal_id user) (value_of (body_role b)))
               = fresh_token_id (otp_tokens w)"
    by (simp add: fresh_token_id_def invalidate_tokens_ids)
  show ?thesis
  proof (cases smtp_up)
    case True
    then show ?thesis
      by (simp add: forgot_password_found[OF assms] logActivity_def insert_token_def ids)
  next
    case False
    from False show ?thesis
      apply (simp add: forgot_password_found[OF assms] insert_token_def ids)
      apply (simp add: invalidate_tokens_def)
      done
  qed
qed

lemma forgot_password_principals:
  assumes "truthy (body_role b)" "truthy (body_identifier b)"
    and "value_of (body_role b) = ''teacher'' \<or> value_of (body_role b) = ''student''"
    and "select_by_login (principals_of w (value_of (body_role b))) (value_of (body_identifier b))
           = Some user"
  shows "principals_of (snd (forgot_password B now r salt smtp_up w b)) role = principals_of w role"
  by (simp add: forgot_password_found[OF assms] principals_of_def logActivity_def)

lemma generateOTP_half: "generateOTP (1/2) = ''550000''"
  by (simp add: generateOTP_def js_toString_def numbers_def)

lemma demo_forgot_fields:
  "truthy (body_role (forgot_body ''student'' ident))"
  "ident \<noteq> [] \<Longrightarrow> truthy (body_identifier (forgot_body ''student'' ident))"
  "value_of (body_role (forgot_body ''student'' ident)) = ''student''"
  "value_of (body_identifier (forgot_body ''student'' ident)) = ident"
  by (simp_all add: forgot_body_def truthy_def value_of_def)

lemma demo_principals_student: "principals_of demo_world ''student'' = students demo_world"
  by (simp add: principals_of_def)

lemma demo_students_absent: "select_by_login (students demo_world) ''nobody'' = None"
  by (simp add: select_by_login_def maybeSingle_def demo_world_def demo_student_def)

text \<open>
  Claim C6. When the notifier fails after the new token was inserted, the caller gets
  status 503, which is not the generic success response; the token just created is in
  the ledger and marked used, the principal is left with no unused token, and nothing
  was delivered.
\<close>

theorem forgot_password_delivery_failure:
  assumes "truthy (body_role b)" "truthy (body_identifier b)"
    and "value_of (body_role b) = ''teacher'' \<or> value_of (body_role b) = ''student''"
    and "select_by_login (principals_of w (value_of (body_role b))) (value_of (body_identifier b))
           = Some user"
  shows "fst (forgot_password B now r salt False w b)
           = \<lparr>status = 503,
              body = Error ''Failed to send OTP email. Please contact your administrator.''\<rparr>
       \<and> fst (forgot_password B now r salt False w b) \<noteq> generic_success
       \<and> (\<exists>t. t \<in> set (otp_tokens (snd (forgot_password B now r salt False w b)))
              \<and> token_id t \<notin> token_id ` set (otp_tokens w)
              \<and> user_type t = value_of (body_role b) \<and> user_id t = principal_id user
              \<and> otp_code_hash t = hashPassword B salt (generateOTP r)
              \<and> expires_at t = now + 10 * 60 * 1000 \<and> used t)
       \<and> unused_tokens (snd (forgot_password B now r salt False w b))
            (value_of (body_role b)) (principal_id user) = []
       \<and> outbox (snd (forgot_password B now r salt False w b)) = outbox w"
proof -
  let ?w' = "snd (forgot_password B now r salt False w b)"
  let ?new = "\<lparr>token_id = fresh_token_id (otp_tokens w), user_type = value_of (body_role b),
             user_id = principal_id user, otp_code_hash = hashPassword B salt (generateOTP r),
             expires_at = now + 10 * 60 * 1000, used = True, created_at = now\<rparr>"
  have toks: "otp_tokens ?w' =
      invalidate_tokens (otp_tokens w) (principal_id user) (value_of (body_role b)) @ [?new]"
    using forgot_password_tokens[OF assms, of B now r salt False] by simp
  have res: "fst (forgot_password B now r salt False w b)
           = \<lparr>status = 503,
              body = Error ''Failed to send OTP email. Please contact your administrator.''\<rparr>"
    by (simp add: forgot_password_found[OF assms] json_def)
  have differs: "fst (forgot_password B now r salt False w b) \<noteq> generic_success"
    by (simp add: res generic_success_def json_def)
  have "?new \<in> set (otp_tokens ?w')" by (simp add: toks)
  moreover have "token_id ?new \<notin> token_id ` set (otp_tokens w)"
    using fresh_token_id_new[of "otp_tokens w"] by simp
  ultimately have created: "\<exists>t. t \<in> set (otp_tokens ?w')
              \<and> token_id t \<notin> token_id ` set (otp_tokens w)
              \<and> user_type t = value_of (body_role b) \<and> user_id t = principal_id user
              \<and> otp_code_hash t = hashPassword B salt (generateOTP r)
              \<and> expires_at t = now + 10 * 60 * 1000 \<and> used t"
    by (intro exI[of _ ?new]) simp
  have none: "unused_tokens ?w' (value_of (body_role b)) (principal_id user) = []"
    unfolding unused_tokens_def toks by (simp add: unused_after_invalidate)
  have mail: "outbox ?w' = outbox w"
    by (simp add: forgot_password_found[OF assms])
  show ?thesis using res differs created none mail by blast
qed

theorem forgot_password_delivery_failure_witness:
  "fst (forgot_password toy_bcrypt 1000 (1/2) 0 False demo_world (forgot_body ''student'' ''2024001''))
      = \<lparr>status = 503,
         body = Error ''Failed to send OTP email. Please contact your administrator.''\<rparr>
   \<and> unused_tokens
        (snd (forgot_password toy_bcrypt 1000 (1/2) 0 False demo_world
                (forgot_body ''student'' ''2024001''))) ''student'' 7 = []
   \<and> outbox (snd (forgot_password toy_bcrypt 1000 (1/2) 0 False demo_world
                (forgot_body ''student'' ''2024001''))) = []"
proof -
  let ?b = "forgot_body ''student'' ''2024001''"
  have p: "select_by_login (principals_of demo_world (value_of (body_role ?b)))
             (value_of (body_identifier ?b)) = Some demo_student"
    by (simp add: demo_forgot_fields demo_principals_student demo_students_lookup)
  have r: "value_of (body_role ?b) = ''teacher'' \<or> value_of (body_role ?b) = ''student''"
    by (simp add: demo_forgot_fields)
  have f: "truthy (body_role ?b)" "truthy (body_identifier ?b)"
    by (simp_all add: demo_forgot_fields)
  have i: "principal_id demo_student = 7" by (simp add: demo_student_def)
  have o: "outbox demo_world = []" by (simp add: demo_world_def)
  show ?thesis
    using forgot_password_delivery_failure[OF f r p, of toy_bcrypt 1000 "1/2" 0]
    by (simp add: demo_forgot_fields i o)
qed

text \<open>
  Claim C5. A forgot-password request for an identifier that resolves to no principal has
  no side effect (lemma \<open>forgot_password_unknown\<close>: the world is returned as it was), but
  its response is not the one of the real-account path. Evaluated on the fixture: the
  unknown identifier is answered \<open>If the account exists, an OTP has been sent to the
  registered email\<close>, the known one \<open>OTP has been sent to your registered email
  address\<close>.
\<close>

theorem forgot_password_answers:
  "forgot_password toy_bcrypt 1000 (1/2) 0 True demo_world (forgot_body ''student'' ''nobody'')
     = (\<lparr>status = 200,
         body = Message ''If the account exists, an OTP has been sent to the registered email''\<rparr>,
        demo_world)
   \<and> fst (forgot_password toy_bcrypt 1000 (1/2) 0 True demo_world
            (forgot_body ''student'' ''2024001''))
     = \<lparr>status = 200, body = Message ''OTP has been sent to your registered email address''\<rparr>"
proof -
  let ?u = "forgot_body ''student'' ''nobody''"
  let ?k = "forgot_body ''student'' ''2024001''"
  have "select_by_login (principals_of demo_world (value_of (body_role ?u)))
          (value_of (body_identifier ?u)) = None"
    by (simp add: demo_forgot_fields demo_principals_student demo_students_absent)
  then have unknown: "forgot_password toy_bcrypt 1000 (1/2) 0 True demo_world ?u
                        = (generic_success, demo_world)"
    by (intro forgot_password_unknown) (simp_all add: demo_forgot_fields)
  have "select_by_login (principals_of demo_world (value_of (body_role ?k)))
          (value_of (body_identifier ?k)) = Some demo_student"
    by (simp add: demo_forgot_fields demo_principals_student demo_students_lookup)
  then have known: "fst (forgot_password toy_bcrypt 1000 (1/2) 0 True demo_world ?k)
      = json 200 (Message ''OTP has been sent to your registered email address'')"
    by (subst forgot_password_found[where user = demo_student])
       (simp_all add: demo_forgot_fields)
  show ?thesis using unknown known by (simp add: generic_success_def json_def)
qed

theorem forgot_password_answers_witness:
  "fst (forgot_password toy_bcrypt 1000 (1/2) 0 True demo_world (forgot_body ''student'' ''nobody''))
     \<noteq> fst (forgot_password toy_bcrypt 1000 (1/2) 0 True demo_world
              (forgot_body ''student'' ''2024001''))"
  using forgot_password_answers by simp

subsection \<open>Verify OTP\<close>

lemma first_valid_token_None:
  "first_valid_token B otp ts = None
     \<longleftrightarrow> (\<forall>t\<in>set ts. \<not> comparePassword B otp (otp_code_hash t))"
  by (induction ts) simp_all

lemma first_valid_token_Some:
  "first_valid_token B otp ts = Some t
     \<Longrightarrow> t \<in> set ts \<and> comparePassword B otp (otp_code_hash t)"
  by (induction ts) (simp_all split: if_splits)

lemma select_live_tokens_set:
  "set (select_live_tokens rows role i now) =
     {t \<in> set rows. user_type t = role \<and> user_id t = i \<and> \<not> used t \<and> now < expires_at t}"
  by (simp add: select_live_tokens_def)

text \<open>The handler on a well-formed request for a teacher or student that exists.\<close>

lemma verify_otp_found:
  assumes "truthy (body_role b)" "truthy (body_identifier b)" "truthy (body_otp b)"
      "truthy (body_newPassword b)"
    and "8 \<le> length (value_of (body_newPassword b))"
    and "value_of (body_role b) = ''teacher'' \<or> value_of (body_role b) = ''student''"
    and "select_by_login (principals_of w (value_of (body_role b))) (value_of (body_identifier b))
           = Some user"
  shows "verify_otp B now salt w b =
     (if select_live_tokens (otp_tokens w) (value_of (body_role b)) (principal_id user) now = []
      then (json 400 (Error ''OTP expired or invalid''), w)
      else
        (case first_valid_token B (value_of (body_otp b))
                (select_live_tokens (otp_tokens w) (value_of (body_role b)) (principal_id user) now) of
           None \<Rightarrow> (json 400 (Error ''Invalid OTP''), w)
         | Some validToken \<Rightarrow>
             (json 200 (Message ''Password reset successfully''),
              logActivity
                (update_table
                   (w\<lparr>otp_tokens := consume_token (otp_tokens w) (token_id validToken)\<rparr>)
                   (if value_of (body_role b) = ''teacher'' then Teachers else Students)
                   (principal_id user) (hashPassword B salt (value_of (body_newPassword b))))
                (value_of (body_role b)) (principal_id user) ''password_reset_via_otp''
                [(''identifier'', value_of (body_identifier b))])))"
proof -
  have len: "\<not> length (value_of (body_newPassword b)) < 8" using assms(5) by simp
  consider (t) "value_of (body_role b) = ''teacher''" | (s) "value_of (body_role b) = ''student''"
    using assms(6) by blast
  then show ?thesis
  proof cases
    case t
    show ?thesis
      using assms(1-4,7) len unfolding verify_otp_def principals_of_def Let_def t
      by (simp split: option.split)
  next
    case s
    show ?thesis
      using assms(1-4,7) len unfolding verify_otp_def principals_of_def Let_def s
      by (simp split: option.split)
  qed
qed

lemma verify_otp_iff:
  assumes "truthy (body_role b)" "truthy (body_identifier b)" "truthy (body_otp b)"
      "truthy (body_newPassword b)"
    and "8 \<le> length (value_of (body_newPassword b))"
    and "value_of (body_role b) = ''teacher'' \<or> value_of (body_role b) = ''student''"
    and "select_by_login (principals_of w (value_of (body_role b))) (value_of (body_identifier b))
           = Some user"
  shows "fst (verify_otp B now salt w b) = json 200 (Message ''Password reset successfully'')
     \<longleftrightarrow> (\<exists>t\<in>set (otp_tokens w). user_type t = value_of (body_role b)
            \<and> user_id t = principal_id user \<and> \<not> used t \<and> now < expires_at t
            \<and> comparePassword B (value_of (body_otp b)) (otp_code_hash t))"
    (is "?ok \<longleftrightarrow> ?ex")
proof -
  let ?live = "select_live_tokens (otp_tokens w) (value_of (body_role b)) (principal_id user) now"
  have ex: "?ex \<longleftrightarrow> (\<exists>t\<in>set ?live. comparePassword B (value_of (body_otp b)) (otp_code_hash t))"
    unfolding select_live_tokens_set by blast
  show ?thesis
  proof (cases "first_valid_token B (value_of (body_otp b)) ?live")
    case None
    then have no: "\<not> ?ex" unfolding ex by (simp add: first_valid_token_None)
    have "\<not> ?ok" using None by (simp add: verify_otp_found[OF assms] json_def)
    then show ?thesis using no by simp
  next
    case (Some t)
    then have t: "t \<in> set ?live" "comparePassword B (value_of (body_otp b)) (otp_code_hash t)"
      using first_valid_token_Some by blast+
    then have ne: "?live \<noteq> []" by auto
    have "?ok" using Some ne by (simp add: verify_otp_found[OF assms])
    moreover have "?ex" unfolding ex using t by blast
    ultimately show ?thesis by simp
  qed
qed

lemma verify_otp_else:
  assumes "truthy (body_role b)" "truthy (body_identifier b)" "truthy (body_otp b)"
      "truthy (body_newPassword b)"
    and "8 \<le> length (value_of (body_newPassword b))"
    and "value_of (body_role b) = ''teacher'' \<or> value_of (body_role b) = ''student''"
    and "select_by_login (principals_of w (value_of (body_role b))) (value_of (body_identifier b))
           = Some user"
    and "fst (verify_otp B now salt w b) \<noteq> json 200 (Message ''Password reset successfully'')"
  shows "invalid_otp (fst (verify_otp B now salt w b)) \<and> snd (verify_otp B now salt w b) = w"
proof (cases "select_live_tokens (otp_tokens w) (value_of (body_role b)) (principal_id user) now = []")
  case True
  then show ?thesis by (simp add: verify_otp_found[OF assms(1-7)] invalid_otp_def)
next
  case False
  show ?thesis
  proof (cases "first_valid_token B (value_of (body_otp b))
      (select_live_tokens (otp_tokens w) (value_of (body_role b)) (principal_id user) now)")
    case None
    then show ?thesis using False by (simp add: verify_otp_found[OF assms(1-7)] invalid_otp_def)
  next
    case (Some t)
    then have "fst (verify_otp B now salt w b) = json 200 (Message ''Password reset successfully'')"
      using False by (simp add: verify_otp_found[OF assms(1-7)])
    then show ?thesis using assms(8) by simp
  qed
qed

text \<open>After an issuance the only token of the principal that can be unused is the new one.\<close>

lemma forgot_password_unused:
  assumes "truthy (body_role b)" "truthy (body_identifier b)"
    and "value_of (body_role b) = ''teacher'' \<or> value_of (body_role b) = ''student''"
    and "select_by_login (principals_of w (value_of (body_role b))) (value_of (body_identifier b))
           = Some user"
    and "t \<in> set (otp_tokens (snd (forgot_password B now r salt smtp_up w b)))"
    and "user_type t = value_of (body_role b)" "user_id t = principal_id user" "\<not> used t"
  shows "smtp_up \<and> t = \<lparr>token_id = fresh_token_id (otp_tokens w), user_type = value_of (body_role b),
             user_id = principal_id user, otp_code_hash = hashPassword B salt (generateOTP r),
             expires_at = now + 10 * 60 * 1000, used = False, created_at = now\<rparr>"
proof -
  have "t \<in> set (invalidate_tokens (otp_tokens w) (principal_id user) (value_of (body_role b)))
        \<or> t = \<lparr>token_id = fresh_token_id (otp_tokens w), user_type = value_of (body_role b),
             user_id = principal_id user, otp_code_hash = hashPassword B salt (generateOTP r),
             expires_at = now + 10 * 60 * 1000, used = \<not> smtp_up, created_at = now\<rparr>"
    using assms(5) unfolding forgot_password_tokens[OF assms(1-4)] by auto
  then show ?thesis
  proof
    assume "t \<in> set (invalidate_tokens (otp_tokens w) (principal_id user) (value_of (body_role b)))"
    then have "used t" using assms(6,7) by (rule invalidate_tokens_used)
    then show ?thesis using assms(8) by simp
  next
    assume new: "t = \<lparr>token_id = fresh_token_id (otp_tokens w), user_type = value_of (body_role b),
             user_id = principal_id user, otp_code_hash = hashPassword B salt (generateOTP r),
             expires_at = now + 10 * 60 * 1000, used = \<not> smtp_up, created_at = now\<rparr>"
    then have "smtp_up" using assms(8) by simp
    then show ?thesis using new by simp
  qed
qed

lemma toy_bcrypt_verifies: "bcrypt_verifies toy_bcrypt"
  by (simp add: bcrypt_verifies_def toy_bcrypt_def)

lemma demo_recovery_fields:
  "truthy (body_role (recovery_body ''student'' ''2024001'' ''550000'' ''NewPass1!''))"
  "truthy (body_identifier (recovery_body ''student'' ''2024001'' ''550000'' ''NewPass1!''))"
  "truthy (body_otp (recovery_body ''student'' ''2024001'' ''550000'' ''NewPass1!''))"
  "truthy (body_newPassword (recovery_body ''student'' ''2024001'' ''550000'' ''NewPass1!''))"
  "8 \<le> length (value_of (body_newPassword
          (recovery_body ''student'' ''2024001'' ''550000'' ''NewPass1!'')))"
  "value_of (body_role (recovery_body ''student'' ''2024001'' ''550000'' ''NewPass1!'')) = ''teacher''
   \<or> value_of (body_role (recovery_body ''student'' ''2024001'' ''550000'' ''NewPass1!'')) = ''student''"
  by (simp_all add: recovery_body_def truthy_def value_of_def)

lemma demo_recovery_values:
  "value_of (body_role (recovery_body ''student'' ''2024001'' ''550000'' ''NewPass1!'')) = ''student''"
  "value_of (body_identifier (recovery_body ''student'' ''2024001'' ''550000'' ''NewPass1!''))
     = ''2024001''"
  "value_of (body_otp (recovery_body ''student'' ''2024001'' ''550000'' ''NewPass1!'')) = ''550000''"
  "body_role (forgot_body ''student'' ''2024001'')
     = body_role (recovery_body ''student'' ''2024001'' ''550000'' ''NewPass1!'')"
  "body_identifier (forgot_body ''student'' ''2024001'')
     = body_identifier (recovery_body ''student'' ''2024001'' ''550000'' ''NewPass1!'')"
  by (simp_all add: recovery_body_def forgot_body_def value_of_def)

text \<open>
  Claim C4. For a verify-otp request with valid inputs (all fields present, new password
  of at least 8 characters, role teacher or student, principal found) the operation
  succeeds exactly when some token of the principal is unused, expires strictly after
  \<open>now\<close> and has a hash that verifies the submitted code; otherwise it fails with
  \<open>InvalidOTP\<close>. In particular, a token issued by forgot-password at \<open>now0\<close> is
  rejected from \<open>now0\<close> plus ten minutes on, whatever the code, while before that the
  issued code is accepted.
\<close>

theorem verify_otp_succeeds_iff:
  assumes "truthy (body_role b)" "truthy (body_identifier b)" "truthy (body_otp b)"
      "truthy (body_newPassword b)"
    and "8 \<le> length (value_of (body_newPassword b))"
    and "value_of (body_role b) = ''teacher'' \<or> value_of (body_role b) = ''student''"
    and "select_by_login (principals_of w (value_of (body_role b))) (value_of (body_identifier b))
           = Some user"
    and "body_role b0 = body_role b" "body_identifier b0 = body_identifier b"
  shows "(fst (verify_otp B now salt w b)
            = \<lparr>status = 200, body = Message ''Password reset successfully''\<rparr>
          \<longleftrightarrow> (\<exists>t\<in>set (otp_tokens w). user_type t = value_of (body_role b)
                 \<and> user_id t = principal_id user \<and> used t = False \<and> now < expires_at t
                 \<and> comparePassword B (value_of (body_otp b)) (otp_code_hash t)))
       \<and> (fst (verify_otp B now salt w b)
            \<noteq> \<lparr>status = 200, body = Message ''Password reset successfully''\<rparr>
          \<longrightarrow> invalid_otp (fst (verify_otp B now salt w b)))
       \<and> (now0 + 10 * 60 * 1000 \<le> now
          \<longrightarrow> invalid_otp (fst (verify_otp B now salt
                  (snd (forgot_password B now0 r salt0 smtp_up w b0)) b)))
       \<and> (bcrypt_verifies B \<and> value_of (body_otp b) = generateOTP r \<and> now < now0 + 10 * 60 * 1000
          \<longrightarrow> fst (verify_otp B now salt (snd (forgot_password B now0 r salt0 True w b0)) b)
                = \<lparr>status = 200, body = Message ''Password reset successfully''\<rparr>)"
proof -
  note valid = assms(1-7)
  have fb: "truthy (body_role b0)" "truthy (body_identifier b0)"
      "value_of (body_role b0) = ''teacher'' \<or> value_of (body_role b0) = ''student''"
      "select_by_login (principals_of w (value_of (body_role b0))) (value_of (body_identifier b0))
           = Some user"
    using assms by simp_all
  have same: "\<And>up. select_by_login
      (principals_of (snd (forgot_password B now0 r salt0 up w b0)) (value_of (body_role b)))
      (value_of (body_identifier b)) = Some user"
    using forgot_password_principals[OF fb] valid(7) by simp
  have a: "fst (verify_otp B now salt w b)
            = \<lparr>status = 200, body = Message ''Password reset successfully''\<rparr>
          \<longleftrightarrow> (\<exists>t\<in>set (otp_tokens w). user_type t = value_of (body_role b)
                 \<and> user_id t = principal_id user \<and> used t = False \<and> now < expires_at t
                 \<and> comparePassword B (value_of (body_otp b)) (otp_code_hash t))"
    using verify_otp_iff[OF valid, of B now salt] by (simp add: json_def)
  have b: "fst (verify_otp B now salt w b)
            \<noteq> \<lparr>status = 200, body = Message ''Password reset successfully''\<rparr>
          \<longrightarrow> invalid_otp (fst (verify_otp B now salt w b))"
    using verify_otp_else[OF valid, of B now salt] by (simp add: json_def)
  have c: "invalid_otp (fst (verify_otp B now salt
                  (snd (forgot_password B now0 r salt0 smtp_up w b0)) b))"
    if late: "now0 + 10 * 60 * 1000 \<le> now"
  proof -
    let ?w' = "snd (forgot_password B now0 r salt0 smtp_up w b0)"
    have "\<not> (\<exists>t\<in>set (otp_tokens ?w'). user_type t = value_of (body_role b)
                 \<and> user_id t = principal_id user \<and> \<not> used t \<and> now < expires_at t
                 \<and> comparePassword B (value_of (body_otp b)) (otp_code_hash t))"
    proof
      assume "\<exists>t\<in>set (otp_tokens ?w'). user_type t = value_of (body_role b)
                 \<and> user_id t = principal_id user \<and> \<not> used t \<and> now < expires_at t
                 \<and> comparePassword B (value_of (body_otp b)) (otp_code_hash t)"
      then obtain t where t: "t \<in> set (otp_tokens ?w')" "user_type t = value_of (body_role b0)"
          "user_id t = principal_id user" "\<not> used t" "now < expires_at t"
        using assms(8) by auto
      have "expires_at t = now0 + 10 * 60 * 1000"
        using forgot_password_unused[OF fb t(1-4)] by simp
      then show False using t(5) late by simp
    qed
    then have "fst (verify_otp B now salt ?w' b)
                 \<noteq> json 200 (Message ''Password reset successfully'')"
      using verify_otp_iff[OF valid(1-6) same, of B now salt smtp_up] by simp
    then show ?thesis
      using verify_otp_else[OF valid(1-6) same, of B now salt smtp_up] by simp
  qed
  have d: "fst (verify_otp B now salt (snd (forgot_password B now0 r salt0 True w b0)) b)
                = \<lparr>status = 200, body = Message ''Password reset successfully''\<rparr>"
    if h: "bcrypt_verifies B" "value_of (body_otp b) = generateOTP r" "now < now0 + 10 * 60 * 1000"
  proof -
    let ?w' = "snd (forgot_password B now0 r salt0 True w b0)"
    let ?new = "\<lparr>token_id = fresh_token_id (otp_tokens w), user_type = value_of (body_role b0),
             user_id = principal_id user, otp_code_hash = hashPassword B salt0 (generateOTP r),
             expires_at = now0 + 10 * 60 * 1000, used = False, created_at = now0\<rparr>"
    have "?new \<in> set (otp_tokens ?w')"
      unfolding forgot_password_tokens[OF fb] by simp
    moreover have "comparePassword B (value_of (body_otp b)) (otp_code_hash ?new)"
      using h(1,2) by (simp add: comparePassword_def hashPassword_def bcrypt_verifies_def)
    moreover have "user_type ?new = value_of (body_role b)" using assms(8) by simp
    moreover have "now < expires_at ?new" using h(3) by simp
    ultimately have "\<exists>t\<in>set (otp_tokens ?w'). user_type t = value_of (body_role b)
                 \<and> user_id t = principal_id user \<and> \<not> used t \<and> now < expires_at t
                 \<and> comparePassword B (value_of (body_otp b)) (otp_code_hash t)"
      by (intro bexI[of _ ?new]) simp_all
    then show ?thesis
      using verify_otp_iff[OF valid(1-6) same, of B now salt True] by (simp add: json_def)
  qed
  show ?thesis using a b c d by blast
qed

theorem verify_otp_succeeds_iff_witness:
  "invalid_otp (fst (verify_otp toy_bcrypt 601000 9 demo_world
      (recovery_body ''student'' ''2024001'' ''550000'' ''NewPass1!'')))
   \<and> invalid_otp (fst (verify_otp toy_bcrypt 601000 9
        (snd (forgot_password toy_bcrypt 1000 (1/2) 0 True demo_world
                (forgot_body ''student'' ''2024001'')))
        (recovery_body ''student'' ''2024001'' ''550000'' ''NewPass1!'')))
   \<and> fst (verify_otp toy_bcrypt 600999 9
        (snd (forgot_password toy_bcrypt 1000 (1/2) 0 True demo_world
                (forgot_body ''student'' ''2024001'')))
        (recovery_body ''student'' ''2024001'' ''550000'' ''NewPass1!''))
       = \<lparr>status = 200, body = Message ''Password reset successfully''\<rparr>"
proof -
  let ?reset = "recovery_body ''student'' ''2024001'' ''550000'' ''NewPass1!''"
  let ?issue = "forgot_body ''student'' ''2024001''"
  have p: "select_by_login (principals_of demo_world (value_of (body_role ?reset)))
             (value_of (body_identifier ?reset)) = Some demo_student"
    by (simp add: demo_recovery_values demo_principals_student demo_students_lookup)
  have none: "otp_tokens demo_world = []" by (simp add: demo_world_def)
  note inst = verify_otp_succeeds_iff[OF demo_recovery_fields(1-4)]
  note inst = inst[OF demo_recovery_fields(5)]
  note inst = inst[OF demo_recovery_fields(6)]
  note inst = inst[OF p]
  note inst = inst[OF demo_recovery_values(4)]
  note inst = inst[OF demo_recovery_values(5)]
  note late = inst[of toy_bcrypt 601000 9 1000 "1/2" 0 True]
  note early = inst[of toy_bcrypt 600999 9 1000 "1/2" 0 True]
  have one: "invalid_otp (fst (verify_otp toy_bcrypt 601000 9 demo_world ?reset))"
    using late by (simp add: none)
  have two: "invalid_otp (fst (verify_otp toy_bcrypt 601000 9
        (snd (forgot_password toy_bcrypt 1000 (1/2) 0 True demo_world ?issue)) ?reset))"
    using late by simp
  have three: "fst (verify_otp toy_bcrypt 600999 9
        (snd (forgot_password toy_bcrypt 1000 (1/2) 0 True demo_world ?issue)) ?reset)
       = \<lparr>status = 200, body = Message ''Password reset successfully''\<rparr>"
    using early toy_bcrypt_verifies by (simp add: demo_recovery_values generateOTP_half)
  show ?thesis using one two three by simp
qed

subsection \<open>Superseding issuance\<close>

lemma generateOTP_third: "generateOTP (1/3) = ''400000''"
  by (simp add: generateOTP_def js_toString_def numbers_def)

text \<open>
  Claim C2, as the code has it. When forgot-password issues a token for an existing
  principal, every token of that principal that was unused is marked used in place and
  one row is added, so afterwards the principal has at most one unused token. A later
  verify-otp (valid inputs, any time) with a code that does not verify against the newly
  issued token's hash fails with \<open>InvalidOTP\<close>; this covers the earlier code unless the
  new draw produced the same code again.
\<close>

theorem forgot_password_supersedes:
  assumes "truthy (body_role b0)" "truthy (body_identifier b0)"
    and "value_of (body_role b0) = ''teacher'' \<or> value_of (body_role b0) = ''student''"
    and "select_by_login (principals_of w (value_of (body_role b0))) (value_of (body_identifier b0))
           = Some user"
    and "body_role b = body_role b0" "body_identifier b = body_identifier b0"
    and "truthy (body_otp b)" "truthy (body_newPassword b)"
    and "8 \<le> length (value_of (body_newPassword b))"
  shows "length (otp_tokens (snd (forgot_password B now r salt smtp_up w b0)))
           = Suc (length (otp_tokens w))
       \<and> (\<forall>k<length (otp_tokens w).
             user_type (otp_tokens w ! k) = value_of (body_role b0)
             \<and> user_id (otp_tokens w ! k) = principal_id user
             \<and> used (otp_tokens w ! k) = False
             \<longrightarrow> otp_tokens (snd (forgot_password B now r salt smtp_up w b0)) ! k
                   = (otp_tokens w ! k)\<lparr>used := True\<rparr>)
       \<and> length (unused_tokens (snd (forgot_password B now r salt smtp_up w b0))
                   (value_of (body_role b0)) (principal_id user)) \<le> 1
       \<and> (\<not> comparePassword B (value_of (body_otp b)) (hashPassword B salt (generateOTP r))
          \<longrightarrow> invalid_otp (fst (verify_otp B now2 salt2
                  (snd (forgot_password B now r salt smtp_up w b0)) b)))"
proof -
  note fb = assms(1-4)
  let ?w' = "snd (forgot_password B now r salt smtp_up w b0)"
  let ?role = "value_of (body_role b0)"
  let ?old = "invalidate_tokens (otp_tokens w) (principal_id user) ?role"
  let ?new = "\<lparr>token_id = fresh_token_id (otp_tokens w), user_type = ?role,
             user_id = principal_id user, otp_code_hash = hashPassword B salt (generateOTP r),
             expires_at = now + 10 * 60 * 1000, used = \<not> smtp_up, created_at = now\<rparr>"
  have toks: "otp_tokens ?w' = ?old @ [?new]" by (rule forgot_password_tokens[OF fb])
  have one: "length (otp_tokens ?w') = Suc (length (otp_tokens w))"
    by (simp add: toks invalidate_tokens_length)
  have two: "\<forall>k<length (otp_tokens w).
             user_type (otp_tokens w ! k) = ?role
             \<and> user_id (otp_tokens w ! k) = principal_id user
             \<and> used (otp_tokens w ! k) = False
             \<longrightarrow> otp_tokens ?w' ! k = (otp_tokens w ! k)\<lparr>used := True\<rparr>"
  proof (intro allI impI)
    fix k
    assume k: "k < length (otp_tokens w)"
      and old: "user_type (otp_tokens w ! k) = ?role
             \<and> user_id (otp_tokens w ! k) = principal_id user
             \<and> used (otp_tokens w ! k) = False"
    have "otp_tokens ?w' ! k = ?old ! k"
      using k by (simp add: toks nth_append invalidate_tokens_length)
    also have "\<dots> = (otp_tokens w ! k)\<lparr>used := True\<rparr>"
      using old by (simp add: invalidate_tokens_nth[OF k])
    finally show "otp_tokens ?w' ! k = (otp_tokens w ! k)\<lparr>used := True\<rparr>" .
  qed
  have "unused_tokens ?w' ?role (principal_id user)
          = filter (\<lambda>t. user_type t = ?role \<and> user_id t = principal_id user \<and> \<not> used t) [?new]"
    unfolding unused_tokens_def toks by (simp add: unused_after_invalidate)
  then have three: "length (unused_tokens ?w' ?role (principal_id user)) \<le> 1" by simp
  have four: "invalid_otp (fst (verify_otp B now2 salt2 ?w' b))"
    if other: "\<not> comparePassword B (value_of (body_otp b)) (hashPassword B salt (generateOTP r))"
  proof -
    have valid: "truthy (body_role b)" "truthy (body_identifier b)" "truthy (body_otp b)"
        "truthy (body_newPassword b)" "8 \<le> length (value_of (body_newPassword b))"
        "value_of (body_role b) = ''teacher'' \<or> value_of (body_role b) = ''student''"
      using assms by simp_all
    have same: "select_by_login (principals_of ?w' (value_of (body_role b)))
                  (value_of (body_identifier b)) = Some user"
      using forgot_password_principals[OF fb] assms(4,5,6) by simp
    have "\<not> (\<exists>t\<in>set (otp_tokens ?w'). user_type t = value_of (body_role b)
                 \<and> user_id t = principal_id user \<and> \<not> used t \<and> now2 < expires_at t
                 \<and> comparePassword B (value_of (body_otp b)) (otp_code_hash t))"
    proof
      assume "\<exists>t\<in>set (otp_tokens ?w'). user_type t = value_of (body_role b)
                 \<and> user_id t = principal_id user \<and> \<not> used t \<and> now2 < expires_at t
                 \<and> comparePassword B (value_of (body_otp b)) (otp_code_hash t)"
      then obtain t where t: "t \<in> set (otp_tokens ?w')" "user_type t = ?role"
          "user_id t = principal_id user" "\<not> used t"
          and ok: "comparePassword B (value_of (body_otp b)) (otp_code_hash t)"
        using assms(5) by auto
      have "otp_code_hash t = hashPassword B salt (generateOTP r)"
        using forgot_password_unused[OF fb t] by simp
      then show False using ok other by simp
    qed
    then have "fst (verify_otp B now2 salt2 ?w' b)
                 \<noteq> json 200 (Message ''Password reset successfully'')"
      using verify_otp_iff[OF valid same, of B now2 salt2] by simp
    then show ?thesis
      using verify_otp_else[OF valid same, of B now2 salt2] by simp
  qed
  show ?thesis using one two three four by blast
qed

theorem forgot_password_supersedes_witness:
  "generateOTP (1/2) = ''550000'' \<and> generateOTP (1/3) = ''400000''
   \<and> length (unused_tokens
        (snd (forgot_password toy_bcrypt 2000 (1/3) 1 True
           (snd (forgot_password toy_bcrypt 1000 (1/2) 0 True demo_world
                   (forgot_body ''student'' ''2024001'')))
           (forgot_body ''student'' ''2024001''))) ''student'' 7) \<le> 1
   \<and> invalid_otp (fst (verify_otp toy_bcrypt 3000 5
        (snd (forgot_password toy_bcrypt 2000 (1/3) 1 True
           (snd (forgot_password toy_bcrypt 1000 (1/2) 0 True demo_world
                   (forgot_body ''student'' ''2024001'')))
           (forgot_body ''student'' ''2024001'')))
        (recovery_body ''student'' ''2024001'' ''550000'' ''NewPass1!'')))"
proof -
  let ?issue = "forgot_body ''student'' ''2024001''"
  let ?reset = "recovery_body ''student'' ''2024001'' ''550000'' ''NewPass1!''"
  let ?w1 = "snd (forgot_password toy_bcrypt 1000 (1/2) 0 True demo_world ?issue)"
  have f: "truthy (body_role ?issue)" "truthy (body_identifier ?issue)"
    by (simp_all add: demo_forgot_fields)
  have r: "value_of (body_role ?issue) = ''teacher'' \<or> value_of (body_role ?issue) = ''student''"
    by (simp add: demo_forgot_fields)
  have p0: "select_by_login (principals_of demo_world (value_of (body_role ?issue)))
             (value_of (body_identifier ?issue)) = Some demo_student"
    by (simp add: demo_forgot_fields demo_principals_student demo_students_lookup)
  have p1: "select_by_login (principals_of ?w1 (value_of (body_role ?issue)))
             (value_of (body_identifier ?issue)) = Some demo_student"
    using p0 by (simp only: forgot_password_principals[OF f r p0])
  have other: "\<not> comparePassword toy_bcrypt (value_of (body_otp ?reset))
                  (hashPassword toy_bcrypt 1 (generateOTP (1/3)))"
    by (simp add: demo_recovery_values generateOTP_third comparePassword_def hashPassword_def
        toy_bcrypt_def)
  have i: "principal_id demo_student = 7" by (simp add: demo_student_def)
  note inst = forgot_password_supersedes[OF f r p1 demo_recovery_values(4)[symmetric]]
  note inst = inst[OF demo_recovery_values(5)[symmetric] demo_recovery_fields(3,4)]
  note inst = inst[OF demo_recovery_fields(5), of toy_bcrypt 2000 "1/3" 1 True 3000 5]
  show ?thesis
    using inst other by (simp add: generateOTP_half generateOTP_third demo_forgot_fields i)
qed

theorem earlier_code_still_accepted:
  "generateOTP (1/2) = ''550000''
   \<and> fst (verify_otp toy_bcrypt 3000 5
        (snd (forgot_password toy_bcrypt 2000 (1/2) 1 True
           (snd (forgot_password toy_bcrypt 1000 (1/2) 0 True demo_world
                   (forgot_body ''student'' ''2024001'')))
           (forgot_body ''student'' ''2024001'')))
        (recovery_body ''student'' ''2024001'' ''550000'' ''NewPass1!''))
       = \<lparr>status = 200, body = Message ''Password reset successfully''\<rparr>
   \<and> \<not> invalid_otp (fst (verify_otp toy_bcrypt 3000 5
        (snd (forgot_password toy_bcrypt 2000 (1/2) 1 True
           (snd (forgot_password toy_bcrypt 1000 (1/2) 0 True demo_world
                   (forgot_body ''student'' ''2024001'')))
           (forgot_body ''student'' ''2024001'')))
        (recovery_body ''student'' ''2024001'' ''550000'' ''NewPass1!'')))"
proof -
  let ?issue = "forgot_body ''student'' ''2024001''"
  let ?reset = "recovery_body ''student'' ''2024001'' ''550000'' ''NewPass1!''"
  let ?w1 = "snd (forgot_password toy_bcrypt 1000 (1/2) 0 True demo_world ?issue)"
  let ?w2 = "snd (forgot_password toy_bcrypt 2000 (1/2) 1 True ?w1 ?issue)"
  let ?new = "\<lparr>token_id = fresh_token_id (otp_tokens ?w1), user_type = value_of (body_role ?issue),
             user_id = principal_id demo_student,
             otp_code_hash = hashPassword toy_bcrypt 1 (generateOTP (1/2)),
             expires_at = 2000 + 10 * 60 * 1000, used = \<not> True, created_at = 2000\<rparr>"
  have f: "truthy (body_role ?issue)" "truthy (body_identifier ?issue)"
    by (simp_all add: demo_forgot_fields)
  have r: "value_of (body_role ?issue) = ''teacher'' \<or> value_of (body_role ?issue) = ''student''"
    by (simp add: demo_forgot_fields)
  have p0: "select_by_login (principals_of demo_world (value_of (body_role ?issue)))
             (value_of (body_identifier ?issue)) = Some demo_student"
    by (simp add: demo_forgot_fields demo_principals_student demo_students_lookup)
  have p1: "select_by_login (principals_of ?w1 (value_of (body_role ?issue)))
             (value_of (body_identifier ?issue)) = Some demo_student"
    using p0 by (simp only: forgot_password_principals[OF f r p0])
  have p2: "select_by_login (principals_of ?w2 (value_of (body_role ?reset)))
             (value_of (body_identifier ?reset)) = Some demo_student"
    using p1 by (simp only: forgot_password_principals[OF f r p1] demo_recovery_values
        demo_forgot_fields)
  have "?new \<in> set (otp_tokens ?w2)"
    unfolding forgot_password_tokens[OF f r p1] by simp
  moreover have "comparePassword toy_bcrypt (value_of (body_otp ?reset)) (otp_code_hash ?new)"
    by (simp add: demo_recovery_values generateOTP_half comparePassword_def hashPassword_def
        toy_bcrypt_def)
  ultimately have "\<exists>t\<in>set (otp_tokens ?w2). user_type t = value_of (body_role ?reset)
                 \<and> user_id t = principal_id demo_student \<and> \<not> used t \<and> 3000 < expires_at t
                 \<and> comparePassword toy_bcrypt (value_of (body_otp ?reset)) (otp_code_hash t)"
    by (intro bexI[of _ ?new]) (simp_all add: demo_recovery_values demo_forgot_fields)
  then have ok: "fst (verify_otp toy_bcrypt 3000 5 ?w2 ?reset)
      = json 200 (Message ''Password reset successfully'')"
    using verify_otp_iff[OF demo_recovery_fields p2, of toy_bcrypt 3000 5] by simp
  then have "\<not> invalid_otp (fst (verify_otp toy_bcrypt 3000 5 ?w2 ?reset))"
    by (simp add: invalid_otp_def json_def)
  then show ?thesis using ok by (simp add: generateOTP_half json_def)
qed

subsection \<open>Single use\<close>

lemma consume_token_member:
  assumes "t \<in> set (consume_token rows i)"
  obtains t0 where "t0 \<in> set rows" "t = (if token_id t0 = i then t0\<lparr>used := True\<rparr> else t0)"
proof -
  from assms have "t \<in> (\<lambda>t. if token_id t = i then t\<lparr>used := True\<rparr> else t) ` set rows"
    by (simp only: consume_token_def set_map)
  then show ?thesis using that by (elim imageE)
qed

lemma consume_token_used:
  assumes "t \<in> set (consume_token rows i)" "token_id t = i"
  shows "used t"
proof -
  from assms(1) obtain t0 where t0: "t0 \<in> set rows"
      "t = (if token_id t0 = i then t0\<lparr>used := True\<rparr> else t0)"
    by (rule consume_token_member)
  show ?thesis
  proof (cases "token_id t0 = i")
    case True
    then show ?thesis using t0(2) by simp
  next
    case False
    then show ?thesis using t0(2) assms(2) by simp
  qed
qed

lemma consume_token_unused:
  assumes "t \<in> set (consume_token rows i)" "\<not> used t"
  shows "t \<in> set rows \<and> token_id t \<noteq> i"
proof -
  from assms(1) obtain t0 where t0: "t0 \<in> set rows"
      "t = (if token_id t0 = i then t0\<lparr>used := True\<rparr> else t0)"
    by (rule consume_token_member)
  show ?thesis
  proof (cases "token_id t0 = i")
    case True
    then show ?thesis using t0(2) assms(2) by simp
  next
    case False
    then show ?thesis using t0 by simp
  qed
qed

lemma filter_at_most_one:
  assumes "length (filter P xs) \<le> 1" "x \<in> set xs" "P x" "y \<in> set xs" "P y"
  shows "x = y"
proof -
  have x: "x \<in> set (filter P xs)" and y: "y \<in> set (filter P xs)" using assms by simp_all
  show ?thesis
  proof (cases "filter P xs")
    case Nil
    then show ?thesis using x by simp
  next
    case (Cons z zs)
    then have "zs = []" using assms(1) by simp
    then show ?thesis using x y Cons by simp
  qed
qed

lemma select_by_login_update:
  "select_by_login (update_password rows i h) ident =
     map_option (\<lambda>u. if principal_id u = i
                      then u\<lparr>password_hash := h, must_change_password := Some False\<rparr> else u)
       (select_by_login rows ident)"
proof -
  let ?f = "\<lambda>u. if principal_id u = i
                then u\<lparr>password_hash := h, must_change_password := Some False\<rparr> else u"
  have same: "(\<lambda>u. login_id u = ident) \<circ> ?f = (\<lambda>u. login_id u = ident)"
    by (rule ext) simp
  have "filter (\<lambda>u. login_id u = ident) (map ?f rows)
               = map ?f (filter ((\<lambda>u. login_id u = ident) \<circ> ?f) rows)"
    by (rule filter_map)
  also have "\<dots> = map ?f (filter (\<lambda>u. login_id u = ident) rows)"
    by (simp only: same)
  finally have "filter (\<lambda>u. login_id u = ident) (map ?f rows)
               = map ?f (filter (\<lambda>u. login_id u = ident) rows)" .
  then show ?thesis
    unfolding select_by_login_def update_password_def by (simp only: maybeSingle_map)
qed

lemma verify_otp_bad_password:
  assumes "\<not> truthy (body_newPassword b) \<or> length (value_of (body_newPassword b)) < 8"
  shows "status (fst (verify_otp B now salt w b)) = 400"
proof (cases "\<not> truthy (body_role b) \<or> \<not> truthy (body_identifier b) \<or> \<not> truthy (body_otp b)
         \<or> \<not> truthy (body_newPassword b)")
  case True
  then have "verify_otp B now salt w b = (json 400 (Error ''All fields are required''), w)"
    unfolding verify_otp_def by (simp only: if_True)
  then show ?thesis by (simp add: json_def)
next
  case False
  then have short: "length (value_of (body_newPassword b)) < 8" using assms by blast
  have "verify_otp B now salt w b
          = (json 400 (Error ''Password must be at least 8 characters long''), w)"
    unfolding verify_otp_def Let_def using False short by (simp only: if_False if_True)
  then show ?thesis by (simp add: json_def)
qed

text \<open>What a successful verify-otp leaves behind.\<close>

lemma verify_otp_success_world:
  assumes "truthy (body_role b)" "truthy (body_identifier b)" "truthy (body_otp b)"
      "truthy (body_newPassword b)"
    and "8 \<le> length (value_of (body_newPassword b))"
    and "value_of (body_role b) = ''teacher'' \<or> value_of (body_role b) = ''student''"
    and "select_by_login (principals_of w (value_of (body_role b))) (value_of (body_identifier b))
           = Some user"
    and "fst (verify_otp B now salt w b) = json 200 (Message ''Password reset successfully'')"
  shows "\<exists>validToken.
           first_valid_token B (value_of (body_otp b))
             (select_live_tokens (otp_tokens w) (value_of (body_role b)) (principal_id user) now)
             = Some validToken
         \<and> otp_tokens (snd (verify_otp B now salt w b))
             = consume_token (otp_tokens w) (token_id validToken)
         \<and> principals_of (snd (verify_otp B now salt w b)) (value_of (body_role b))
             = update_password (principals_of w (value_of (body_role b))) (principal_id user)
                 (hashPassword B salt (value_of (body_newPassword b)))"
proof -
  let ?live = "select_live_tokens (otp_tokens w) (value_of (body_role b)) (principal_id user) now"
  have ne: "?live \<noteq> []"
  proof
    assume "?live = []"
    then have "fst (verify_otp B now salt w b) = json 400 (Error ''OTP expired or invalid'')"
      by (simp add: verify_otp_found[OF assms(1-7)])
    then show False using assms(8) by (simp add: json_def)
  qed
  have "first_valid_token B (value_of (body_otp b)) ?live \<noteq> None"
  proof
    assume "first_valid_token B (value_of (body_otp b)) ?live = None"
    then have "fst (verify_otp B now salt w b) = json 400 (Error ''Invalid OTP'')"
      using ne by (simp add: verify_otp_found[OF assms(1-7)])
    then show False using assms(8) by (simp add: json_def)
  qed
  then obtain vt where vt: "first_valid_token B (value_of (body_otp b)) ?live = Some vt"
    by blast
  have w': "snd (verify_otp B now salt w b) =
      logActivity
        (update_table
           (w\<lparr>otp_tokens := consume_token (otp_tokens w) (token_id vt)\<rparr>)
           (if value_of (body_role b) = ''teacher'' then Teachers else Students)
           (principal_id user) (hashPassword B salt (value_of (body_newPassword b))))
        (value_of (body_role b)) (principal_id user) ''password_reset_via_otp''
        [(''identifier'', value_of (body_identifier b))]"
    using vt ne by (simp add: verify_otp_found[OF assms(1-7)])
  have toks: "otp_tokens (snd (verify_otp B now salt w b))
             = consume_token (otp_tokens w) (token_id vt)"
    unfolding w' by (simp add: logActivity_def update_table_def)
  consider (t) "value_of (body_role b) = ''teacher''" | (s) "value_of (body_role b) = ''student''"
    using assms(6) by blast
  then have "principals_of (snd (verify_otp B now salt w b)) (value_of (body_role b))
             = update_password (principals_of w (value_of (body_role b))) (principal_id user)
                 (hashPassword B salt (value_of (body_newPassword b)))"
  proof cases
    case t
    show ?thesis unfolding w' t by (simp add: logActivity_def update_table_def principals_of_def)
  next
    case s
    show ?thesis unfolding w' s by (simp add: logActivity_def update_table_def principals_of_def)
  qed
  then show ?thesis using vt toks by blast
qed

text \<open>
  When at most one unused token of the principal verifies the code, a successful
  verify-otp leaves none: the matched token is marked used and a second submission of the
  same code is rejected.
\<close>

lemma verify_otp_unique_match:
  assumes "truthy (body_role b)" "truthy (body_identifier b)" "truthy (body_otp b)"
      "truthy (body_newPassword b)"
    and "8 \<le> length (value_of (body_newPassword b))"
    and "value_of (body_role b) = ''teacher'' \<or> value_of (body_role b) = ''student''"
    and "select_by_login (principals_of w (value_of (body_role b))) (value_of (body_identifier b))
           = Some user"
    and uniq: "length (filter (\<lambda>t. user_type t = value_of (body_role b)
                 \<and> user_id t = principal_id user \<and> used t = False
                 \<and> comparePassword B (value_of (body_otp b)) (otp_code_hash t))
               (otp_tokens w)) \<le> 1"
    and ok: "fst (verify_otp B now salt w b)
               = \<lparr>status = 200, body = Message ''Password reset successfully''\<rparr>"
    and again: "body_role b2 = body_role b" "body_identifier b2 = body_identifier b"
      "body_otp b2 = body_otp b"
  shows "(\<exists>t\<in>set (otp_tokens w). user_type t = value_of (body_role b)
            \<and> user_id t = principal_id user \<and> used t = False \<and> now < expires_at t
            \<and> comparePassword B (value_of (body_otp b)) (otp_code_hash t)
            \<and> (\<forall>t'\<in>set (otp_tokens (snd (verify_otp B now salt w b))).
                  token_id t' = token_id t \<longrightarrow> used t'))
       \<and> status (fst (verify_otp B now2 salt2 (snd (verify_otp B now salt w b)) b2)) = 400
       \<and> (truthy (body_newPassword b2) \<and> 8 \<le> length (value_of (body_newPassword b2))
          \<longrightarrow> invalid_otp (fst (verify_otp B now2 salt2 (snd (verify_otp B now salt w b)) b2)))"
proof -
  note valid = assms(1-7)
  let ?role = "value_of (body_role b)"
  let ?otp = "value_of (body_otp b)"
  let ?w' = "snd (verify_otp B now salt w b)"
  let ?P = "\<lambda>t. user_type t = ?role \<and> user_id t = principal_id user \<and> \<not> used t
                 \<and> comparePassword B ?otp (otp_code_hash t)"
  have ok': "fst (verify_otp B now salt w b) = json 200 (Message ''Password reset successfully'')"
    using ok by (simp add: json_def)
  obtain vt where vt: "first_valid_token B ?otp
        (select_live_tokens (otp_tokens w) ?role (principal_id user) now) = Some vt"
      and toks: "otp_tokens ?w' = consume_token (otp_tokens w) (token_id vt)"
      and prin: "principals_of ?w' ?role
             = update_password (principals_of w ?role) (principal_id user)
                 (hashPassword B salt (value_of (body_newPassword b)))"
    using verify_otp_success_world[OF valid ok'] by blast
  have "vt \<in> set (select_live_tokens (otp_tokens w) ?role (principal_id user) now)"
      and match: "comparePassword B ?otp (otp_code_hash vt)"
    using first_valid_token_Some[OF vt] by simp_all
  then have live: "vt \<in> set (otp_tokens w)" "user_type vt = ?role"
      "user_id vt = principal_id user" "\<not> used vt" "now < expires_at vt"
    by (simp_all add: select_live_tokens_set)
  have marked: "\<forall>t'\<in>set (otp_tokens ?w'). token_id t' = token_id vt \<longrightarrow> used t'"
    unfolding toks using consume_token_used by blast
  have one: "\<exists>t\<in>set (otp_tokens w). user_type t = ?role
            \<and> user_id t = principal_id user \<and> used t = False \<and> now < expires_at t
            \<and> comparePassword B ?otp (otp_code_hash t)
            \<and> (\<forall>t'\<in>set (otp_tokens ?w'). token_id t' = token_id t \<longrightarrow> used t')"
    using live match marked by (intro bexI[of _ vt]) simp_all
  have look: "select_by_login (principals_of ?w' (value_of (body_role b2)))
                (value_of (body_identifier b2))
              = Some (user\<lparr>password_hash := hashPassword B salt (value_of (body_newPassword b)),
                           must_change_password := Some False\<rparr>)"
    using valid(7) by (simp add: again prin select_by_login_update)
  have three: "invalid_otp (fst (verify_otp B now2 salt2 ?w' b2))"
    if pw: "truthy (body_newPassword b2)" "8 \<le> length (value_of (body_newPassword b2))"
  proof -
    have valid2: "truthy (body_role b2)" "truthy (body_identifier b2)" "truthy (body_otp b2)"
        "truthy (body_newPassword b2)" "8 \<le> length (value_of (body_newPassword b2))"
        "value_of (body_role b2) = ''teacher'' \<or> value_of (body_role b2) = ''student''"
      using valid pw again by simp_all
    have "\<not> (\<exists>t\<in>set (otp_tokens ?w'). user_type t = value_of (body_role b2)
              \<and> user_id t = principal_id (user\<lparr>password_hash :=
                     hashPassword B salt (value_of (body_newPassword b)),
                   must_change_password := Some False\<rparr>)
              \<and> \<not> used t \<and> now2 < expires_at t
              \<and> comparePassword B (value_of (body_otp b2)) (otp_code_hash t))"
    proof
      assume "\<exists>t\<in>set (otp_tokens ?w'). user_type t = value_of (body_role b2)
              \<and> user_id t = principal_id (user\<lparr>password_hash :=
                     hashPassword B salt (value_of (body_newPassword b)),
                   must_change_password := Some False\<rparr>)
              \<and> \<not> used t \<and> now2 < expires_at t
              \<and> comparePassword B (value_of (body_otp b2)) (otp_code_hash t)"
      then obtain t where t: "t \<in> set (consume_token (otp_tokens w) (token_id vt))"
          "\<not> used t" and Pt: "?P t"
        using again toks by auto
      have t0: "t \<in> set (otp_tokens w)" "token_id t \<noteq> token_id vt"
        using consume_token_unused[OF t] by simp_all
      have Pvt: "?P vt" using live match by simp
      have "length (filter ?P (otp_tokens w)) \<le> 1" using uniq by simp
      then have "t = vt" using t0(1) Pt live(1) Pvt by (rule filter_at_most_one)
      then show False using t0(2) by simp
    qed
    then have "fst (verify_otp B now2 salt2 ?w' b2)
                 \<noteq> json 200 (Message ''Password reset successfully'')"
      using verify_otp_iff[OF valid2 look, of B now2 salt2] by simp
    then show ?thesis
      using verify_otp_else[OF valid2 look, of B now2 salt2] by simp
  qed
  have two: "status (fst (verify_otp B now2 salt2 ?w' b2)) = 400"
  proof (cases "truthy (body_newPassword b2) \<and> 8 \<le> length (value_of (body_newPassword b2))")
    case True
    then have "invalid_otp (fst (verify_otp B now2 salt2 ?w' b2))" using three by simp
    then show ?thesis unfolding invalid_otp_def by (auto simp: json_def)
  next
    case False
    then have "\<not> truthy (body_newPassword b2) \<or> length (value_of (body_newPassword b2)) < 8"
      by auto
    then show ?thesis by (rule verify_otp_bad_password)
  qed
  show ?thesis using one two three by blast
qed

subsection \<open>Change password\<close>

lemma select_by_id_update:
  "select_by_id (update_password rows i h) j =
     map_option (\<lambda>u. if principal_id u = i
                      then u\<lparr>password_hash := h, must_change_password := Some False\<rparr> else u)
       (select_by_id rows j)"
proof -
  let ?f = "\<lambda>u. if principal_id u = i
                then u\<lparr>password_hash := h, must_change_password := Some False\<rparr> else u"
  have same: "(\<lambda>u. principal_id u = j) \<circ> ?f = (\<lambda>u. principal_id u = j)"
    by (rule ext) simp
  have "filter (\<lambda>u. principal_id u = j) (map ?f rows)
               = map ?f (filter ((\<lambda>u. principal_id u = j) \<circ> ?f) rows)"
    by (rule filter_map)
  also have "\<dots> = map ?f (filter (\<lambda>u. principal_id u = j) rows)"
    by (simp only: same)
  finally have "filter (\<lambda>u. principal_id u = j) (map ?f rows)
               = map ?f (filter (\<lambda>u. principal_id u = j) rows)" .
  then show ?thesis
    unfolding select_by_id_def update_password_def by (simp only: maybeSingle_map)
qed

lemma select_by_id_principal:
  "select_by_id rows i = Some user \<Longrightarrow> principal_id user = i"
proof -
  assume "select_by_id rows i = Some user"
  then have "filter (\<lambda>u. principal_id u = i) rows = [user]"
    by (simp add: select_by_id_def maybeSingle_Some)
  then have "user \<in> set (filter (\<lambda>u. principal_id u = i) rows)" by simp
  then show ?thesis by simp
qed

text \<open>The table the handler picks is the one of the session's role.\<close>

lemma from_table_role:
  "from_table w (if role = ''admin'' then Admins
                 else if role = ''teacher'' then Teachers else Students)
     = principals_of w role"
  by (simp add: from_table_def principals_of_def)

lemma principals_of_update_table:
  "principals_of
     (update_table w (if role = ''admin'' then Admins
                      else if role = ''teacher'' then Teachers else Students) i h) role
     = update_password (principals_of w role) i h"
  by (simp add: update_table_def principals_of_def)

lemma principals_of_logActivity:
  "principals_of (logActivity w userType userId action details) role = principals_of w role"
  by (simp add: logActivity_def principals_of_def)

text \<open>The handler with a session, both passwords present and a long enough new one.\<close>

lemma change_password_found:
  assumes "session = Some su"
    and "truthy (body_currentPassword b)" "8 \<le> length (value_of (body_newPassword b))"
    and "select_by_id (principals_of w (su_role su)) (su_id su) = Some user"
  shows "change_password B salt w session b =
     (if \<not> comparePassword B (value_of (body_currentPassword b)) (password_hash user)
      then (json 401 (Error ''Current password is incorrect''), w, session)
      else (json 200 (Message ''Password changed successfully''),
            logActivity
              (update_table w
                 (if su_role su = ''admin'' then Admins
                  else if su_role su = ''teacher'' then Teachers else Students)
                 (su_id su) (hashPassword B salt (value_of (body_newPassword b))))
              (su_role su) (su_id su) ''password_changed'' [],
            Some (su\<lparr>su_mustChangePassword := False\<rparr>)))"
proof -
  have new: "truthy (body_newPassword b)"
    using assms(3) by (cases "body_newPassword b") (auto simp: truthy_def value_of_def)
  have len: "\<not> length (value_of (body_newPassword b)) < 8" using assms(3) by simp
  have user: "select_by_id
      (from_table w (if su_role su = ''admin'' then Admins
                     else if su_role su = ''teacher'' then Teachers else Students))
      (su_id su) = Some user"
    using assms(4) by (simp only: from_table_role)
  show ?thesis
    unfolding change_password_def assms(1) Let_def
    using assms(2) new len user by simp
qed

lemma change_password_short:
  assumes "session = Some su" "length (value_of (body_newPassword b)) < 8"
  shows "status (fst (change_password B salt w session b)) = 400"
proof (cases "\<not> truthy (body_currentPassword b) \<or> \<not> truthy (body_newPassword b)")
  case True
  then have "change_password B salt w session b
               = (json 400 (Error ''Current and new passwords are required''), w, session)"
    unfolding change_password_def assms(1) Let_def by simp
  then show ?thesis by (simp add: json_def)
next
  case False
  then have "change_password B salt w session b
               = (json 400 (Error ''Password must be at least 8 characters long''), w, session)"
    unfolding change_password_def assms(1) Let_def using assms(2) by simp
  then show ?thesis by (simp add: json_def)
qed

text \<open>
  Claim C7. With an authenticated session whose principal exists: when the current
  password is present and verifies against the stored hash and the new password has at
  least 8 characters, the request succeeds, the principal's row holds a hash that
  verifies the new password and \<open>must_change_password = false\<close>, and the session's
  \<open>mustChangePassword\<close> is false, the session otherwise as it was. When the current
  password does not verify, the answer is 401 and nothing changes. A new password shorter
  than 8 characters is answered 400.
\<close>

theorem change_password_effect:
  assumes "session = Some su"
    and "select_by_id (principals_of w (su_role su)) (su_id su) = Some user"
  shows "(bcrypt_verifies B \<and> truthy (body_currentPassword b)
          \<and> comparePassword B (value_of (body_currentPassword b)) (password_hash user)
          \<and> 8 \<le> length (value_of (body_newPassword b))
          \<longrightarrow> (fst (change_password B salt w session b)
                   = \<lparr>status = 200, body = Message ''Password changed successfully''\<rparr>
                 \<and> select_by_id
                       (principals_of (fst (snd (change_password B salt w session b))) (su_role su))
                       (su_id su)
                     = Some (user\<lparr>password_hash :=
                                    hashPassword B salt (value_of (body_newPassword b)),
                                  must_change_password := Some False\<rparr>)
                 \<and> comparePassword B (value_of (body_newPassword b))
                     (hashPassword B salt (value_of (body_newPassword b)))
                 \<and> snd (snd (change_password B salt w session b))
                     = Some (su\<lparr>su_mustChangePassword := False\<rparr>)))
       \<and> (truthy (body_currentPassword b)
          \<and> \<not> comparePassword B (value_of (body_currentPassword b)) (password_hash user)
          \<and> 8 \<le> length (value_of (body_newPassword b))
          \<longrightarrow> change_password B salt w session b
                = (\<lparr>status = 401, body = Error ''Current password is incorrect''\<rparr>, w, session))
       \<and> (length (value_of (body_newPassword b)) < 8
          \<longrightarrow> status (fst (change_password B salt w session b)) = 400)"
proof -
  have i: "principal_id user = su_id su" using assms(2) by (rule select_by_id_principal)
  have a: "fst (change_password B salt w session b)
                   = \<lparr>status = 200, body = Message ''Password changed successfully''\<rparr>
                 \<and> select_by_id
                       (principals_of (fst (snd (change_password B salt w session b))) (su_role su))
                       (su_id su)
                     = Some (user\<lparr>password_hash :=
                                    hashPassword B salt (value_of (body_newPassword b)),
                                  must_change_password := Some False\<rparr>)
                 \<and> comparePassword B (value_of (body_newPassword b))
                     (hashPassword B salt (value_of (body_newPassword b)))
                 \<and> snd (snd (change_password B salt w session b))
                     = Some (su\<lparr>su_mustChangePassword := False\<rparr>)"
    if h: "bcrypt_verifies B" "truthy (body_currentPassword b)"
      "comparePassword B (value_of (body_currentPassword b)) (password_hash user)"
      "8 \<le> length (value_of (body_newPassword b))"
  proof -
    let ?h = "hashPassword B salt (value_of (body_newPassword b))"
    let ?T = "if su_role su = ''admin'' then Admins
              else if su_role su = ''teacher'' then Teachers else Students"
    have run: "change_password B salt w session b =
        (json 200 (Message ''Password changed successfully''),
         logActivity (update_table w ?T (su_id su) ?h) (su_role su) (su_id su)
           ''password_changed'' [],
         Some (su\<lparr>su_mustChangePassword := False\<rparr>))"
      using h(3) by (simp add: change_password_found[OF assms(1) h(2,4) assms(2)])
    have "principals_of (logActivity (update_table w ?T (su_id su) ?h) (su_role su) (su_id su)
            ''password_changed'' []) (su_role su)
          = update_password (principals_of w (su_role su)) (su_id su) ?h"
      by (simp only: principals_of_logActivity principals_of_update_table)
    then have row: "select_by_id (principals_of
            (logActivity (update_table w ?T (su_id su) ?h) (su_role su) (su_id su)
               ''password_changed'' []) (su_role su)) (su_id su)
          = Some (user\<lparr>password_hash := ?h, must_change_password := Some False\<rparr>)"
      using assms(2) i by (simp add: select_by_id_update)
    have ver: "comparePassword B (value_of (body_newPassword b)) ?h"
      using h(1) by (simp add: comparePassword_def hashPassword_def bcrypt_verifies_def)
    show ?thesis unfolding run using row ver by (simp add: json_def)
  qed
  have b: "change_password B salt w session b
                = (\<lparr>status = 401, body = Error ''Current password is incorrect''\<rparr>, w, session)"
    if h: "truthy (body_currentPassword b)"
      "\<not> comparePassword B (value_of (body_currentPassword b)) (password_hash user)"
      "8 \<le> length (value_of (body_newPassword b))"
    using h(2) by (simp add: change_password_found[OF assms(1) h(1,3) assms(2)] json_def)
  have c: "status (fst (change_password B salt w session b)) = 400"
    if "length (value_of (body_newPassword b)) < 8"
    using assms(1) that by (rule change_password_short)
  show ?thesis using a b c by blast
qed

lemma demo_session_row:
  "select_by_id (principals_of demo_world (su_role demo_session)) (su_id demo_session)
     = Some demo_student"
  by (simp add: select_by_id_def maybeSingle_def principals_of_def demo_session_def
      demo_world_def demo_student_def)

lemma demo_change_fields:
  "truthy (body_currentPassword (change_body cur new)) \<longleftrightarrow> cur \<noteq> []"
  "value_of (body_currentPassword (change_body cur new)) = cur"
  "value_of (body_newPassword (change_body cur new)) = new"
  by (simp_all add: change_body_def truthy_def value_of_def)

theorem change_password_effect_witness:
  "fst (change_password toy_bcrypt 4 demo_world (Some demo_session)
          (change_body ''Student@123'' ''NewPass1!''))
     = \<lparr>status = 200, body = Message ''Password changed successfully''\<rparr>
   \<and> select_by_id
        (students (fst (snd (change_password toy_bcrypt 4 demo_world (Some demo_session)
                               (change_body ''Student@123'' ''NewPass1!''))))) 7
     = Some (demo_student\<lparr>password_hash := ''aNewPass1!'', must_change_password := Some False\<rparr>)
   \<and> snd (snd (change_password toy_bcrypt 4 demo_world (Some demo_session)
                  (change_body ''Student@123'' ''NewPass1!'')))
     = Some (demo_session\<lparr>su_mustChangePassword := False\<rparr>)
   \<and> change_password toy_bcrypt 4 demo_world (Some demo_session)
        (change_body ''guess'' ''NewPass1!'')
     = (\<lparr>status = 401, body = Error ''Current password is incorrect''\<rparr>, demo_world,
        Some demo_session)
   \<and> status (fst (change_password toy_bcrypt 4 demo_world (Some demo_session)
                     (change_body ''Student@123'' ''short''))) = 400"
proof -
  have h: "password_hash demo_student = ''aStudent@123''" by (simp add: demo_student_def)
  have c: "\<And>p d. comparePassword toy_bcrypt p d \<longleftrightarrow> d \<noteq> [] \<and> tl d = p"
    by (simp add: comparePassword_def toy_bcrypt_def)
  have n: "hashPassword toy_bcrypt 4 ''NewPass1!'' = ''aNewPass1!''"
    by (simp add: hashPassword_def toy_bcrypt_def)
  have s: "su_role demo_session = ''student''" "su_id demo_session = 7"
    by (simp_all add: demo_session_def)
  note inst = change_password_effect[OF refl demo_session_row, of toy_bcrypt]
  have good: "fst (change_password toy_bcrypt 4 demo_world (Some demo_session)
          (change_body ''Student@123'' ''NewPass1!''))
     = \<lparr>status = 200, body = Message ''Password changed successfully''\<rparr>
   \<and> select_by_id
        (students (fst (snd (change_password toy_bcrypt 4 demo_world (Some demo_session)
                               (change_body ''Student@123'' ''NewPass1!''))))) 7
     = Some (demo_student\<lparr>password_hash := ''aNewPass1!'', must_change_password := Some False\<rparr>)
   \<and> snd (snd (change_password toy_bcrypt 4 demo_world (Some demo_session)
                  (change_body ''Student@123'' ''NewPass1!'')))
     = Some (demo_session\<lparr>su_mustChangePassword := False\<rparr>)"
    using inst[of "change_body ''Student@123'' ''NewPass1!''" 4] toy_bcrypt_verifies
    by (simp add: demo_change_fields h c n s principals_of_def)
  have bad: "change_password toy_bcrypt 4 demo_world (Some demo_session)
        (change_body ''guess'' ''NewPass1!'')
     = (\<lparr>status = 401, body = Error ''Current password is incorrect''\<rparr>, demo_world,
        Some demo_session)"
    using inst[of "change_body ''guess'' ''NewPass1!''" 4]
    by (simp add: demo_change_fields h c)
  have short: "status (fst (change_password toy_bcrypt 4 demo_world (Some demo_session)
                     (change_body ''Student@123'' ''short''))) = 400"
    using inst[of "change_body ''Student@123'' ''short''" 4]
    by (simp add: demo_change_fields)
  show ?thesis using good bad short by simp
qed

subsection \<open>The OTP-request limiter\<close>

text \<open>
  Claim C9. The OTP-request limiter has a window of 60 minutes and a quota of 5, and its
  key is the identifier of the request body when the body has one, otherwise the client
  address. A field counts as present the way the handlers test it: a field that is
  missing or the empty string is absent.
\<close>

theorem otpRequestLimiter_options:
  "windowMs otpRequestLimiter = minutes 60
   \<and> max_requests otpRequestLimiter = 5
   \<and> (\<forall>s. body_identifier (req_body req) = Some s \<and> s \<noteq> []
          \<longrightarrow> keyGenerator otpRequestLimiter req = s)
   \<and> (body_identifier (req_body req) = None \<or> body_identifier (req_body req) = Some []
          \<longrightarrow> keyGenerator otpRequestLimiter req = req_ip req)"
  by (auto simp: otpRequestLimiter_def minutes_def truthy_def value_of_def)

theorem otpRequestLimiter_options_witness:
  "keyGenerator otpRequestLimiter
     \<lparr>req_body = forgot_body ''student'' ''2024001'', req_ip = ''10.0.0.1''\<rparr> = ''2024001''
   \<and> keyGenerator otpRequestLimiter
     \<lparr>req_body = login_body ''student'' ''2024001'' ''pw'', req_ip = ''10.0.0.1''\<rparr> = ''10.0.0.1''
   \<and> windowMs otpRequestLimiter = 3600000"
proof -
  have a: "body_identifier (req_body \<lparr>req_body = forgot_body ''student'' ''2024001'',
             req_ip = ''10.0.0.1''\<rparr>) = Some ''2024001'' \<and> ''2024001'' \<noteq> []"
    by (simp add: forgot_body_def)
  have b: "body_identifier (req_body \<lparr>req_body = login_body ''student'' ''2024001'' ''pw'',
             req_ip = ''10.0.0.1''\<rparr>) = None"
    by (simp add: login_body_def)
  show ?thesis
    using otpRequestLimiter_options[of "\<lparr>req_body = forgot_body ''student'' ''2024001'',
             req_ip = ''10.0.0.1''\<rparr>"]
      otpRequestLimiter_options[of "\<lparr>req_body = login_body ''student'' ''2024001'' ''pw'',
             req_ip = ''10.0.0.1''\<rparr>"] a b
    by (simp add: minutes_def)
qed

subsection \<open>Further facts about the recovery flow\<close>

text \<open>
  On the real-account path with the mail delivered, the response is never the generic
  one of the unknown-identifier path.
\<close>

lemma forgot_password_known_not_generic:
  assumes "truthy (body_role b)" "truthy (body_identifier b)"
    and "value_of (body_role b) = ''teacher'' \<or> value_of (body_role b) = ''student''"
    and "select_by_login (principals_of w (value_of (body_role b))) (value_of (body_identifier b))
           = Some user"
  shows "fst (forgot_password B now r salt True w b) \<noteq> generic_success"
  by (simp add: forgot_password_found[OF assms] generic_success_def json_def)

text \<open>
  A principal with at most one unused token has at most one unused token that verifies
  a given code; every issuance establishes the former.
\<close>

lemma unused_tokens_matching:
  assumes "length (unused_tokens w role i) \<le> 1"
  shows "length (filter (\<lambda>t. user_type t = role \<and> user_id t = i \<and> used t = False
                  \<and> comparePassword B otp (otp_code_hash t)) (otp_tokens w)) \<le> 1"
proof -
  have eq: "filter (\<lambda>t. user_type t = role \<and> user_id t = i \<and> used t = False
                  \<and> comparePassword B otp (otp_code_hash t)) (otp_tokens w)
        = filter (\<lambda>t. comparePassword B otp (otp_code_hash t)) (unused_tokens w role i)"
    unfolding unused_tokens_def filter_filter by (rule filter_cong) auto
  have "length (filter (\<lambda>t. comparePassword B otp (otp_code_hash t))
                   (unused_tokens w role i)) \<le> length (unused_tokens w role i)"
    by (rule length_filter_le)
  from this assms have "length (filter (\<lambda>t. comparePassword B otp (otp_code_hash t))
                   (unused_tokens w role i)) \<le> 1"
    by (rule order_trans)
  then show ?thesis by (simp only: eq)
qed

lemma forgot_password_leaves_one:
  assumes "truthy (body_role b)" "truthy (body_identifier b)"
    and "value_of (body_role b) = ''teacher'' \<or> value_of (body_role b) = ''student''"
    and "select_by_login (principals_of w (value_of (body_role b))) (value_of (body_identifier b))
           = Some user"
  shows "length (unused_tokens (snd (forgot_password B now r salt smtp_up w b))
           (value_of (body_role b)) (principal_id user)) \<le> 1"
proof -
  have "unused_tokens (snd (forgot_password B now r salt smtp_up w b))
          (value_of (body_role b)) (principal_id user)
        = filter (\<lambda>t. user_type t = value_of (body_role b) \<and> user_id t = principal_id user
                   \<and> \<not> used t)
            [\<lparr>token_id = fresh_token_id (otp_tokens w), user_type = value_of (body_role b),
              user_id = principal_id user, otp_code_hash = hashPassword B salt (generateOTP r),
              expires_at = now + 10 * 60 * 1000, used = \<not> smtp_up, created_at = now\<rparr>]"
    unfolding unused_tokens_def forgot_password_tokens[OF assms]
    by (simp add: unused_after_invalidate)
  then show ?thesis by simp
qed

subsection \<open>The ledger over a sequence of requests\<close>

text \<open>Marking rows used never adds an unused token to a principal.\<close>

lemma filter_marked_le:
  assumes "\<And>t. P (m t) \<Longrightarrow> P t"
  shows "length (filter P (map m rows)) \<le> length (filter P rows)"
proof (induction rows)
  case Nil
  then show ?case by simp
next
  case (Cons t rows)
  show ?case
  proof (cases "P (m t)")
    case True
    then have "P t" by (rule assms)
    then show ?thesis using True Cons.IH by simp
  next
    case False
    then show ?thesis using Cons.IH by (cases "P t") simp_all
  qed
qed

lemma unused_tokens_marked:
  assumes "otp_tokens w' = map m (otp_tokens w)"
    and "\<And>t. m t = t \<or> m t = t\<lparr>used := True\<rparr>"
  shows "length (unused_tokens w' role i) \<le> length (unused_tokens w role i)"
proof -
  have "\<And>t. user_type (m t) = role \<and> user_id (m t) = i \<and> used (m t) = False
          \<Longrightarrow> user_type t = role \<and> user_id t = i \<and> used t = False"
  proof -
    fix t
    assume h: "user_type (m t) = role \<and> user_id (m t) = i \<and> used (m t) = False"
    from assms(2)[of t] show "user_type t = role \<and> user_id t = i \<and> used t = False"
    proof
      assume "m t = t"
      then show ?thesis using h by simp
    next
      assume "m t = t\<lparr>used := True\<rparr>"
      then show ?thesis using h by simp
    qed
  qed
  then have "length (filter (\<lambda>t. user_type t = role \<and> user_id t = i \<and> used t = False)
                (map m (otp_tokens w)))
             \<le> length (filter (\<lambda>t. user_type t = role \<and> user_id t = i \<and> used t = False)
                  (otp_tokens w))"
    by (rule filter_marked_le)
  then show ?thesis unfolding unused_tokens_def assms(1) .
qed

lemma unused_tokens_same:
  "otp_tokens w' = otp_tokens w \<Longrightarrow> unused_tokens w' role i = unused_tokens w role i"
  by (simp add: unused_tokens_def)

text \<open>Login and change-password leave the ledger alone, whatever the request.\<close>

lemma login_tokens: "otp_tokens (fst (snd (login B w session b))) = otp_tokens w"
proof (cases "\<not> truthy (body_role b) \<or> \<not> truthy (body_username b) \<or> \<not> truthy (body_password b)")
  case True
  then have "login B w session b
      = (json 400 (Error ''Role, username, and password are required''), w, session)"
    unfolding login_def by (simp only: if_True)
  then show ?thesis by simp
next
  case False
  then have f: "truthy (body_role b)" "truthy (body_username b)" "truthy (body_password b)"
    by simp_all
  show ?thesis
  proof (cases "value_of (body_role b) = ''admin'' \<or> value_of (body_role b) = ''teacher''
         \<or> value_of (body_role b) = ''student''")
    case True
    show ?thesis
      by (simp add: login_found[OF f True] logActivity_def split: option.split)
  next
    case False
    then have "login B w session b = (json 400 (Error ''Invalid role''), w, session)"
      unfolding login_def Let_def using f by simp
    then show ?thesis by simp
  qed
qed

lemma change_password_tokens:
  "otp_tokens (fst (snd (change_password B salt w session b))) = otp_tokens w"
proof (cases session)
  case None
  then show ?thesis by (simp add: change_password_def)
next
  case (Some su)
  show ?thesis
  proof (cases "truthy (body_currentPassword b) \<and> 8 \<le> length (value_of (body_newPassword b))")
    case True
    show ?thesis
    proof (cases "select_by_id (principals_of w (su_role su)) (su_id su)")
      case None
      then have "select_by_id
          (from_table w (if su_role su = ''admin'' then Admins
                         else if su_role su = ''teacher'' then Teachers else Students))
          (su_id su) = None"
        by (simp only: from_table_role)
      moreover have "truthy (body_newPassword b)"
        using True by (cases "body_newPassword b") (auto simp: truthy_def value_of_def)
      ultimately have "change_password B salt w session b
          = (json 404 (Error ''User not found''), w, session)"
        unfolding change_password_def Some Let_def using True by simp
      then show ?thesis by simp
    next
      case (Some user)
      show ?thesis
        using True
        by (simp add: change_password_found[OF \<open>session = Some su\<close> _ _ Some]
            logActivity_def update_table_def split: table_name.split)
    qed
  next
    case False
    then consider (c) "\<not> truthy (body_currentPassword b)"
      | (n) "length (value_of (body_newPassword b)) < 8" by fastforce
    then show ?thesis
    proof cases
      case c
      then have "change_password B salt w session b
          = (json 400 (Error ''Current and new passwords are required''), w, session)"
        unfolding change_password_def Some Let_def by simp
      then show ?thesis by simp
    next
      case n
      show ?thesis
      proof (cases "\<not> truthy (body_currentPassword b) \<or> \<not> truthy (body_newPassword b)")
        case True
        then have "change_password B salt w session b
            = (json 400 (Error ''Current and new passwords are required''), w, session)"
          unfolding change_password_def Some Let_def by simp
        then show ?thesis by simp
      next
        case False
        then have "change_password B salt w session b
            = (json 400 (Error ''Password must be at least 8 characters long''), w, session)"
          unfolding change_password_def Some Let_def using n by simp
        then show ?thesis by simp
      qed
    qed
  qed
qed

text \<open>
  Forgot-password on any request: either nothing changes, or the request is well formed
  and names a principal that exists.
\<close>

lemma forgot_password_outcome:
  "snd (forgot_password B now r salt smtp_up w b) = w
   \<or> (truthy (body_role b) \<and> truthy (body_identifier b)
      \<and> (value_of (body_role b) = ''teacher'' \<or> value_of (body_role b) = ''student'')
      \<and> (\<exists>user. select_by_login (principals_of w (value_of (body_role b)))
                   (value_of (body_identifier b)) = Some user))"
proof (cases "\<not> truthy (body_role b) \<or> \<not> truthy (body_identifier b)")
  case True
  then have "forgot_password B now r salt smtp_up w b
      = (json 400 (Error ''Role and identifier are required''), w)"
    unfolding forgot_password_def by (simp only: if_True)
  then show ?thesis by simp
next
  case False
  then have f: "truthy (body_role b)" "truthy (body_identifier b)" by simp_all
  show ?thesis
  proof (cases "value_of (body_role b) = ''teacher'' \<or> value_of (body_role b) = ''student''")
    case True
    show ?thesis
    proof (cases "select_by_login (principals_of w (value_of (body_role b)))
                    (value_of (body_identifier b))")
      case None
      then show ?thesis by (simp add: forgot_password_unknown[OF f True])
    next
      case (Some user)
      then show ?thesis using f True by blast
    qed
  next
    case False
    then have "forgot_password B now r salt smtp_up w b
        = (json 400 (Error ''Password reset not available for admin accounts''), w)
      \<or> forgot_password B now r salt smtp_up w b = (json 400 (Error ''Invalid role''), w)"
      unfolding forgot_password_def Let_def using f by simp
    then show ?thesis by auto
  qed
qed

text \<open>
  Verify-otp on any request: either it succeeds, and then the request is well formed and
  names a principal that exists, or it answers 400 and nothing changes.
\<close>

lemma verify_otp_outcome:
  "(fst (verify_otp B now salt w b) = json 200 (Message ''Password reset successfully'')
    \<and> truthy (body_role b) \<and> truthy (body_identifier b) \<and> truthy (body_otp b)
    \<and> truthy (body_newPassword b) \<and> 8 \<le> length (value_of (body_newPassword b))
    \<and> (value_of (body_role b) = ''teacher'' \<or> value_of (body_role b) = ''student'')
    \<and> (\<exists>user. select_by_login (principals_of w (value_of (body_role b)))
                 (value_of (body_identifier b)) = Some user))
   \<or> (status (fst (verify_otp B now salt w b)) = 400 \<and> snd (verify_otp B now salt w b) = w)"
proof (cases "\<not> truthy (body_role b) \<or> \<not> truthy (body_identifier b) \<or> \<not> truthy (body_otp b)
         \<or> \<not> truthy (body_newPassword b)")
  case True
  then have "verify_otp B now salt w b = (json 400 (Error ''All fields are required''), w)"
    unfolding verify_otp_def by (simp only: if_True)
  then show ?thesis by (simp add: json_def)
next
  case False
  then have f: "truthy (body_role b)" "truthy (body_identifier b)" "truthy (body_otp b)"
      "truthy (body_newPassword b)"
    by simp_all
  show ?thesis
  proof (cases "length (value_of (body_newPassword b)) < 8")
    case True
    then have "verify_otp B now salt w b
          = (json 400 (Error ''Password must be at least 8 characters long''), w)"
      unfolding verify_otp_def Let_def using f by simp
    then show ?thesis by (simp add: json_def)
  next
    case False
    then have len: "8 \<le> length (value_of (body_newPassword b))" by simp
    show ?thesis
    proof (cases "value_of (body_role b) = ''teacher'' \<or> value_of (body_role b) = ''student''")
      case True
      note role = True
      show ?thesis
      proof (cases "select_by_login (principals_of w (value_of (body_role b)))
                      (value_of (body_identifier b))")
        case None
        consider (t) "value_of (body_role b) = ''teacher''"
          | (s) "value_of (body_role b) = ''student''"
          using role by blast
        then have "verify_otp B now salt w b = (json 400 (Error ''Invalid credentials''), w)"
        proof cases
          case t
          show ?thesis
            using f None False unfolding verify_otp_def principals_of_def Let_def t by simp
        next
          case s
          show ?thesis
            using f None False unfolding verify_otp_def principals_of_def Let_def s by simp
        qed
        then show ?thesis by (simp add: json_def)
      next
        case (Some user)
        note valid = f len role Some
        show ?thesis
        proof (cases "fst (verify_otp B now salt w b)
                        = json 200 (Message ''Password reset successfully'')")
          case True
          then show ?thesis using f len role Some by blast
        next
          case False
          have "invalid_otp (fst (verify_otp B now salt w b))
                \<and> snd (verify_otp B now salt w b) = w"
            using verify_otp_else[OF valid False] .
          then show ?thesis by (auto simp: invalid_otp_def json_def)
        qed
      qed
    next
      case False
      then have "verify_otp B now salt w b
          = (json 400 (Error ''Password reset not available for admin accounts''), w)
        \<or> verify_otp B now salt w b = (json 400 (Error ''Invalid role''), w)"
        unfolding verify_otp_def Let_def using f len by simp
      then show ?thesis by (auto simp: json_def)
    qed
  qed
qed

text \<open>
  The invariant of the ledger: after any sequence of requests on a ledger that started
  empty, every principal has at most one unused token.
\<close>

lemma step_unused:
  assumes "\<And>role i. length (unused_tokens w role i) \<le> 1"
  shows "length (unused_tokens (step B e w) role i) \<le> 1"
proof (cases e)
  case (Login session b)
  then show ?thesis using assms by (simp add: unused_tokens_same[OF login_tokens])
next
  case (ChangePassword salt session b)
  then show ?thesis using assms by (simp add: unused_tokens_same[OF change_password_tokens])
next
  case (OtherRoute v)
  then show ?thesis using assms[of role i] by (simp add: unused_tokens_def)
next
  case (VerifyOtp now salt b)
  from verify_otp_outcome[of B now salt w b] show ?thesis
  proof
    assume ok: "fst (verify_otp B now salt w b) = json 200 (Message ''Password reset successfully'')
      \<and> truthy (body_role b) \<and> truthy (body_identifier b) \<and> truthy (body_otp b)
      \<and> truthy (body_newPassword b) \<and> 8 \<le> length (value_of (body_newPassword b))
      \<and> (value_of (body_role b) = ''teacher'' \<or> value_of (body_role b) = ''student'')
      \<and> (\<exists>user. select_by_login (principals_of w (value_of (body_role b)))
                   (value_of (body_identifier b)) = Some user)"
    then obtain user where user: "select_by_login (principals_of w (value_of (body_role b)))
                   (value_of (body_identifier b)) = Some user"
      by blast
    from ok have valid: "truthy (body_role b)" "truthy (body_identifier b)" "truthy (body_otp b)"
        "truthy (body_newPassword b)" "8 \<le> length (value_of (body_newPassword b))"
        "value_of (body_role b) = ''teacher'' \<or> value_of (body_role b) = ''student''"
      and first: "fst (verify_otp B now salt w b)
                    = json 200 (Message ''Password reset successfully'')"
      by simp_all
    obtain vt :: otp_token where toks: "otp_tokens (snd (verify_otp B now salt w b))
                             = consume_token (otp_tokens w) (token_id vt)"
      using verify_otp_success_world[OF valid user first] by blast
    have "length (unused_tokens (snd (verify_otp B now salt w b)) role i)
            \<le> length (unused_tokens w role i)"
      using toks unfolding consume_token_def by (rule unused_tokens_marked) simp
    then show ?thesis using assms[of role i] VerifyOtp by simp
  next
    assume "status (fst (verify_otp B now salt w b)) = 400 \<and> snd (verify_otp B now salt w b) = w"
    then show ?thesis using assms[of role i] VerifyOtp by simp
  qed
next
  case (ForgotPassword now r salt smtp_up b)
  from forgot_password_outcome[of B now r salt smtp_up w b] show ?thesis
  proof
    assume "snd (forgot_password B now r salt smtp_up w b) = w"
    then show ?thesis using assms[of role i] ForgotPassword by simp
  next
    assume found: "truthy (body_role b) \<and> truthy (body_identifier b)
      \<and> (value_of (body_role b) = ''teacher'' \<or> value_of (body_role b) = ''student'')
      \<and> (\<exists>user. select_by_login (principals_of w (value_of (body_role b)))
                   (value_of (body_identifier b)) = Some user)"
    then obtain user where user: "select_by_login (principals_of w (value_of (body_role b)))
                   (value_of (body_identifier b)) = Some user"
      by blast
    from found have fb: "truthy (body_role b)" "truthy (body_identifier b)"
        "value_of (body_role b) = ''teacher'' \<or> value_of (body_role b) = ''student''"
      by simp_all
    let ?w' = "snd (forgot_password B now r salt smtp_up w b)"
    show ?thesis
    proof (cases "role = value_of (body_role b) \<and> i = principal_id user")
      case True
      then show ?thesis
        using forgot_password_leaves_one[OF fb user, of B now r salt smtp_up] ForgotPassword
        by simp
    next
      case False
      let ?P = "\<lambda>t. user_type t = role \<and> user_id t = i \<and> used t = False"
      let ?old = "invalidate_tokens (otp_tokens w) (principal_id user) (value_of (body_role b))"
      have "unused_tokens ?w' role i = filter ?P ?old"
        unfolding unused_tokens_def forgot_password_tokens[OF fb user] using False by auto
      moreover have "length (filter ?P ?old) \<le> length (filter ?P (otp_tokens w))"
        unfolding invalidate_tokens_def by (rule filter_marked_le) (simp split: if_splits)
      ultimately have "length (unused_tokens ?w' role i) \<le> length (unused_tokens w role i)"
        by (simp add: unused_tokens_def)
      then show ?thesis using assms[of role i] ForgotPassword by simp
    qed
  qed
qed

lemma run_unused:
  assumes "otp_tokens w0 = []"
  shows "length (unused_tokens (run B events w0) role i) \<le> 1"
proof -
  have "(\<forall>role i. length (unused_tokens w role i) \<le> 1)
        \<Longrightarrow> (\<forall>role i. length (unused_tokens (fold (step B) events w) role i) \<le> 1)" for w
  proof (induction events arbitrary: w)
    case Nil
    then show ?case by simp
  next
    case (Cons e events)
    have "\<forall>role i. length (unused_tokens (step B e w) role i) \<le> 1"
      using Cons.prems step_unused by blast
    then show ?case using Cons.IH by simp
  qed
  moreover have "\<forall>role i. length (unused_tokens w0 role i) \<le> 1"
    using assms by (simp add: unused_tokens_def)
  ultimately show ?thesis unfolding run_def by blast
qed

text \<open>
  Claim C3. A successful verify-otp marks the token it matched used (every row with that
  id), and the lookup only considers unused tokens. Therefore, after any sequence of
  requests on a ledger that started empty, two successive verify-otp submissions of the
  same code for the same role and identifier succeed at most once: when the first
  succeeds, the second is answered 400, and with a well-formed new password the error is
  \<open>InvalidOTP\<close>.
\<close>

theorem verify_otp_single_use:
  assumes "otp_tokens w0 = []"
    and ok: "fst (verify_otp B now salt (run B events w0) b)
               = \<lparr>status = 200, body = Message ''Password reset successfully''\<rparr>"
    and again: "body_role b2 = body_role b" "body_identifier b2 = body_identifier b"
      "body_otp b2 = body_otp b"
  shows "(\<exists>user t. select_by_login (principals_of (run B events w0) (value_of (body_role b)))
                     (value_of (body_identifier b)) = Some user
            \<and> t \<in> set (otp_tokens (run B events w0))
            \<and> user_type t = value_of (body_role b)
            \<and> user_id t = principal_id user \<and> used t = False \<and> now < expires_at t
            \<and> comparePassword B (value_of (body_otp b)) (otp_code_hash t)
            \<and> (\<forall>t'\<in>set (otp_tokens (snd (verify_otp B now salt (run B events w0) b))).
                  token_id t' = token_id t \<longrightarrow> used t'))
       \<and> status (fst (verify_otp B now2 salt2
                        (snd (verify_otp B now salt (run B events w0) b)) b2)) = 400
       \<and> (truthy (body_newPassword b2) \<and> 8 \<le> length (value_of (body_newPassword b2))
          \<longrightarrow> invalid_otp (fst (verify_otp B now2 salt2
                  (snd (verify_otp B now salt (run B events w0) b)) b2)))"
proof -
  let ?w = "run B events w0"
  have "status (fst (verify_otp B now salt ?w b)) \<noteq> 400" using ok by simp
  then have valid: "truthy (body_role b)" "truthy (body_identifier b)" "truthy (body_otp b)"
      "truthy (body_newPassword b)" "8 \<le> length (value_of (body_newPassword b))"
      "value_of (body_role b) = ''teacher'' \<or> value_of (body_role b) = ''student''"
    and ex: "\<exists>user. select_by_login (principals_of ?w (value_of (body_role b)))
                      (value_of (body_identifier b)) = Some user"
    using verify_otp_outcome[of B now salt ?w b] by blast+
  from ex obtain user where user: "select_by_login (principals_of ?w (value_of (body_role b)))
                      (value_of (body_identifier b)) = Some user"
    by blast
  have "length (unused_tokens ?w (value_of (body_role b)) (principal_id user)) \<le> 1"
    using assms(1) by (rule run_unused)
  then have uniq: "length (filter (\<lambda>t. user_type t = value_of (body_role b)
                 \<and> user_id t = principal_id user \<and> used t = False
                 \<and> comparePassword B (value_of (body_otp b)) (otp_code_hash t))
               (otp_tokens ?w)) \<le> 1"
    by (rule unused_tokens_matching)
  note once = verify_otp_unique_match[OF valid user uniq ok again, of now2 salt2]
  from once obtain t where "t \<in> set (otp_tokens ?w)" "user_type t = value_of (body_role b)"
      "user_id t = principal_id user" "used t = False" "now < expires_at t"
      "comparePassword B (value_of (body_otp b)) (otp_code_hash t)"
      "\<forall>t'\<in>set (otp_tokens (snd (verify_otp B now salt ?w b))).
          token_id t' = token_id t \<longrightarrow> used t'"
    by blast
  then have one: "\<exists>user t. select_by_login (principals_of ?w (value_of (body_role b)))
                     (value_of (body_identifier b)) = Some user
            \<and> t \<in> set (otp_tokens ?w)
            \<and> user_type t = value_of (body_role b)
            \<and> user_id t = principal_id user \<and> used t = False \<and> now < expires_at t
            \<and> comparePassword B (value_of (body_otp b)) (otp_code_hash t)
            \<and> (\<forall>t'\<in>set (otp_tokens (snd (verify_otp B now salt ?w b))).
                  token_id t' = token_id t \<longrightarrow> used t')"
    using user by blast
  show ?thesis using one once by blast
qed

theorem verify_otp_single_use_witness:
  "otp_tokens demo_world = []
   \<and> fst (verify_otp toy_bcrypt 3000 5
         (run toy_bcrypt
            [ForgotPassword 1000 (1/2) 0 True (forgot_body ''student'' ''2024001'')] demo_world)
         (recovery_body ''student'' ''2024001'' ''550000'' ''NewPass1!''))
     = \<lparr>status = 200, body = Message ''Password reset successfully''\<rparr>
   \<and> invalid_otp (fst (verify_otp toy_bcrypt 3001 6
        (snd (verify_otp toy_bcrypt 3000 5
           (run toy_bcrypt
              [ForgotPassword 1000 (1/2) 0 True (forgot_body ''student'' ''2024001'')] demo_world)
           (recovery_body ''student'' ''2024001'' ''550000'' ''NewPass1!'')))
        (recovery_body ''student'' ''2024001'' ''550000'' ''NewPass1!'')))"
proof -
  let ?issue = "forgot_body ''student'' ''2024001''"
  let ?reset = "recovery_body ''student'' ''2024001'' ''550000'' ''NewPass1!''"
  let ?w1 = "run toy_bcrypt [ForgotPassword 1000 (1/2) 0 True ?issue] demo_world"
  let ?new = "\<lparr>token_id = fresh_token_id (otp_tokens demo_world),
             user_type = value_of (body_role ?issue), user_id = principal_id demo_student,
             otp_code_hash = hashPassword toy_bcrypt 0 (generateOTP (1/2)),
             expires_at = 1000 + 10 * 60 * 1000, used = \<not> True, created_at = 1000\<rparr>"
  have w1: "?w1 = snd (forgot_password toy_bcrypt 1000 (1/2) 0 True demo_world ?issue)"
    by (simp add: run_def)
  have f: "truthy (body_role ?issue)" "truthy (body_identifier ?issue)"
    by (simp_all add: demo_forgot_fields)
  have r: "value_of (body_role ?issue) = ''teacher'' \<or> value_of (body_role ?issue) = ''student''"
    by (simp add: demo_forgot_fields)
  have p0: "select_by_login (principals_of demo_world (value_of (body_role ?issue)))
             (value_of (body_identifier ?issue)) = Some demo_student"
    by (simp add: demo_forgot_fields demo_principals_student demo_students_lookup)
  have p1: "select_by_login (principals_of ?w1 (value_of (body_role ?reset)))
             (value_of (body_identifier ?reset)) = Some demo_student"
    unfolding w1 using p0
    by (simp only: forgot_password_principals[OF f r p0] demo_recovery_values demo_forgot_fields)
  have none: "otp_tokens demo_world = []" by (simp add: demo_world_def)
  have toks: "otp_tokens ?w1 = [?new]"
    unfolding w1 forgot_password_tokens[OF f r p0] by (simp add: none invalidate_tokens_def)
  have match: "comparePassword toy_bcrypt (value_of (body_otp ?reset)) (otp_code_hash ?new)"
    by (simp add: demo_recovery_values generateOTP_half comparePassword_def hashPassword_def
        toy_bcrypt_def)
  have "\<exists>t\<in>set (otp_tokens ?w1). user_type t = value_of (body_role ?reset)
                 \<and> user_id t = principal_id demo_student \<and> \<not> used t \<and> 3000 < expires_at t
                 \<and> comparePassword toy_bcrypt (value_of (body_otp ?reset)) (otp_code_hash t)"
    unfolding toks using match by (simp add: demo_recovery_values demo_forgot_fields)
  then have first: "fst (verify_otp toy_bcrypt 3000 5 ?w1 ?reset)
      = \<lparr>status = 200, body = Message ''Password reset successfully''\<rparr>"
    using verify_otp_iff[OF demo_recovery_fields p1, of toy_bcrypt 3000 5] by (simp add: json_def)
  note inst = verify_otp_single_use[OF none first refl refl refl, of 3001 6]
  show ?thesis using none first inst demo_recovery_fields(4,5) by simp
qed

end
